theory Spec2Isabelle
  imports Main "HOL-Library.AList" "HOL-Library.Multiset"
begin

section \<open>JavaScript values, strings and objects\<close>

text \<open>
  The program is TypeScript running on the AI SDK. Its values are untyped at run time, so
  the parts of a message are modelled as JavaScript objects: association lists from
  property names to values, in insertion order. Strings are lists of code units below 256
  (the Latin-1 range); this covers every character the regular expressions of the source
  distinguish except the whitespace characters beyond U+00FF.
\<close>

datatype jsval =
    JUndefined
  | JNull
  | JBool bool
  | JNum int
  | JStr string
  | JArr "jsval list"
  | JObj "(string \<times> jsval) list"

type_synonym jsobject = "(string \<times> jsval) list"

text \<open>
  Truthiness (\<open>!!v\<close>), \<open>typeof v === "string"\<close> and the access to a property of a part by
  its fixed name (\<open>part.type\<close>, \<open>filePart.data\<close>).
\<close>

fun truthy :: "jsval \<Rightarrow> bool" where
  "truthy JUndefined = False"
| "truthy JNull = False"
| "truthy (JBool b) = b"
| "truthy (JNum n) = (n \<noteq> 0)"
| "truthy (JStr s) = (s \<noteq> [])"
| "truthy (JArr _) = True"
| "truthy (JObj _) = True"

fun is_string :: "jsval \<Rightarrow> bool" where
  "is_string (JStr _) = True"
| "is_string _ = False"

definition get_prop :: "jsobject \<Rightarrow> string \<Rightarrow> jsval" where
  "get_prop ob k = (case map_of ob k of None \<Rightarrow> JUndefined | Some v \<Rightarrow> v)"

text \<open>
  Where the source uses a plain object as a dictionary, \<open>obj[key]\<close> with a key that comes
  from the data finds the own property of that name or else what every object inherits
  from \<open>Object.prototype\<close>: a function, or the prototype itself for \<open>__proto__\<close>.
  An inherited value is neither nullish nor falsy, it is not iterable, and it has none of
  the properties (\<open>includes\<close>, \<open>execute\<close>, \<open>tools\<close>, own enumerable ones) the source reads.
\<close>

definition object_prototype_names :: "string list" where
  "object_prototype_names =
     [''constructor'', ''__defineGetter__'', ''__defineSetter__'', ''hasOwnProperty'',
      ''__lookupGetter__'', ''__lookupSetter__'', ''isPrototypeOf'', ''propertyIsEnumerable'',
      ''toString'', ''valueOf'', ''__proto__'', ''toLocaleString'']"

datatype 'v lookup = Own 'v | Inherited | Missing

definition js_get :: "(string \<times> 'v) list \<Rightarrow> string \<Rightarrow> 'v lookup" where
  "js_get ob k =
     (case map_of ob k of
        Some v \<Rightarrow> Own v
      | None \<Rightarrow> if k \<in> set object_prototype_names then Inherited else Missing)"

text \<open>
  \<open>{...a, ...b}\<close>: the properties of \<open>a\<close> in their order, overwritten by those of \<open>b\<close>,
  then the new properties of \<open>b\<close>.
\<close>

definition spread :: "(string \<times> 'v) list \<Rightarrow> (string \<times> 'v) list \<Rightarrow> (string \<times> 'v) list" where
  "spread a b = fold (\<lambda>(k, v). AList.update k v) b a"

subsection \<open>String operations\<close>

text \<open>The class \<open>\s\<close> of a regular expression, which is also what \<open>trim\<close> removes.\<close>

definition is_ws :: "char \<Rightarrow> bool" where
  "is_ws c = (of_char c \<in> {9, 10, 11, 12, 13, 32, 160 :: nat})"

definition lower_letters :: string where
  "lower_letters = ''abcdefghijklmnopqrstuvwxyz''"

definition upper_letters :: string where
  "upper_letters = ''ABCDEFGHIJKLMNOPQRSTUVWXYZ''"

definition digit_chars :: string where
  "digit_chars = ''0123456789''"

text \<open>The class \<open>[a-zA-Z0-9]\<close>.\<close>

definition is_alnum :: "char \<Rightarrow> bool" where
  "is_alnum c \<longleftrightarrow> c \<in> set lower_letters \<or> c \<in> set upper_letters \<or> c \<in> set digit_chars"

definition trim :: "string \<Rightarrow> string" where
  "trim s = rev (dropWhile is_ws (rev (dropWhile is_ws s)))"

text \<open>\<open>s.replace(/[^a-zA-Z0-9\s]/g, "")\<close>\<close>

definition remove_special :: "string \<Rightarrow> string" where
  "remove_special s = filter (\<lambda>c. is_alnum c \<or> is_ws c) s"

text \<open>\<open>s.replace(/\s+/g, "-")\<close>: every maximal run of whitespace becomes one hyphen.\<close>

function hyphenate :: "string \<Rightarrow> string" where
  "hyphenate [] = []"
| "hyphenate (c # cs) =
     (if is_ws c then CHR ''-'' # hyphenate (dropWhile is_ws cs) else c # hyphenate cs)"
  by pat_completeness auto
termination
  by (relation "measure length") (auto simp: le_imp_less_Suc length_dropWhile_le)

text \<open>
  \<open>toUpperCase\<close> and \<open>toLowerCase\<close> on the ASCII letters; the source applies them to
  strings of ASCII letters, digits, hyphens and dots.
\<close>

definition upper_char :: "char \<Rightarrow> char" where
  "upper_char c = (case map_of (zip lower_letters upper_letters) c of None \<Rightarrow> c | Some u \<Rightarrow> u)"

definition lower_char :: "char \<Rightarrow> char" where
  "lower_char c = (case map_of (zip upper_letters lower_letters) c of None \<Rightarrow> c | Some l \<Rightarrow> l)"

definition toUpperCase :: "string \<Rightarrow> string" where
  "toUpperCase s = map upper_char s"

definition toLowerCase :: "string \<Rightarrow> string" where
  "toLowerCase s = map lower_char s"

section \<open>Errors and the safe pipeline\<close>

text \<open>
  A thrown value (or a rejected promise) is \<open>Inl\<close> of a result: every function of the
  source that can throw returns \<open>js_error + 'a\<close>. The combinators are those of the
  \<open>ts-safe\<close> library the source chains: \<open>map\<close> runs the next step unless an earlier one
  threw and catches what the step throws, \<open>ifFail\<close> replaces a failure by the handler's
  result (and stays failed when the handler throws), \<open>orElse\<close> ends the chain with a
  default, \<open>unwrap\<close> ends it by returning the value or rethrowing.
\<close>

datatype js_error = JsError (err_name: string) (err_message: string)

definition safe_map :: "('a \<Rightarrow> js_error + 'b) \<Rightarrow> js_error + 'a \<Rightarrow> js_error + 'b" where
  "safe_map f s = (case s of Inl e \<Rightarrow> Inl e | Inr v \<Rightarrow> f v)"

definition ifFail :: "(js_error \<Rightarrow> js_error + 'a) \<Rightarrow> js_error + 'a \<Rightarrow> js_error + 'a" where
  "ifFail h s = (case s of Inl e \<Rightarrow> h e | Inr v \<Rightarrow> Inr v)"

definition orElse :: "'a \<Rightarrow> js_error + 'a \<Rightarrow> 'a" where
  "orElse d s = (case s of Inl e \<Rightarrow> d | Inr v \<Rightarrow> v)"

definition unwrap :: "js_error + 'a \<Rightarrow> js_error + 'a" where
  "unwrap s = s"

text \<open>\<open>errorIf(pred)\<close>: throws an error with the message \<open>pred\<close> returns, if it returns one.\<close>

definition errorIf :: "('a \<Rightarrow> string option) \<Rightarrow> 'a \<Rightarrow> js_error + 'a" where
  "errorIf pred v = (case pred v of Some msg \<Rightarrow> Inl (JsError ''Error'' msg) | None \<Rightarrow> Inr v)"

section \<open>Tools, mentions and allow-lists\<close>

text \<open>
  The \<open>execute\<close> function of a tool is a closure. It is modelled by what determines it: the
  workflow a workflow tool runs, or the handle of an executor that an adapter (the MCP
  client manager, the built-in toolkit) supplied.
\<close>

datatype executor =
    WorkflowExecute string string
  | AdapterExecute string

record tool =
  description :: "string option"
  inputSchema :: jsval
  execute :: "executor option"

record mcp_tool = tool +
  mcp_serverId :: string
  mcp_originToolName :: string

record workflow_tool = tool +
  wf_workflowId :: string
  wf_originToolName :: string
  wf_toolName :: string

text \<open>
  \<open>VercelAIMcpTool | VercelAIWorkflowTool | Tool\<close>; the constructor is the tag that
  \<open>VercelAIMcpToolTag.isMaybe\<close> and \<open>VercelAIWorkflowToolTag.isMaybe\<close> test.
\<close>

datatype registry_tool =
    McpTool mcp_tool
  | WorkflowTool workflow_tool
  | PlainTool tool

text \<open>The fields every tool has.\<close>

fun base_tool :: "registry_tool \<Rightarrow> tool" where
  "base_tool (McpTool t) =
     \<lparr>description = description t, inputSchema = inputSchema t, execute = execute t\<rparr>"
| "base_tool (WorkflowTool t) =
     \<lparr>description = description t, inputSchema = inputSchema t, execute = execute t\<rparr>"
| "base_tool (PlainTool t) = t"

type_synonym registry = "(string \<times> registry_tool) list"

datatype ChatMention =
    McpToolMention string string
  | McpServerMention string
  | DefaultToolMention string
  | WorkflowMention string
  | AgentMention string

text \<open>
  The arguments are the fields the source reads: \<open>serverId\<close> and \<open>name\<close> of an
  \<open>mcpTool\<close> mention, \<open>serverId\<close> of an \<open>mcpServer\<close> mention, \<open>name\<close> of a
  \<open>defaultTool\<close> mention, \<open>workflowId\<close> and \<open>agentId\<close>.
\<close>

fun is_mcp_mention :: "ChatMention \<Rightarrow> bool" where
  "is_mcp_mention (McpToolMention _ _) = True"
| "is_mcp_mention (McpServerMention _) = True"
| "is_mcp_mention _ = False"

subsection \<open>\<open>filterMCPToolsByMentions\<close>\<close>

text \<open>
  \<open>reduce\<close> and \<open>filter\<close> with a callback that can throw: the first throw ends the loop.
\<close>

fun reduce_safe :: "('a \<Rightarrow> 'b \<Rightarrow> js_error + 'b) \<Rightarrow> 'a list \<Rightarrow> 'b \<Rightarrow> js_error + 'b" where
  "reduce_safe f [] acc = Inr acc"
| "reduce_safe f (x # xs) acc =
     (case f x acc of Inl e \<Rightarrow> Inl e | Inr acc' \<Rightarrow> reduce_safe f xs acc')"

fun filter_safe :: "('a \<Rightarrow> js_error + bool) \<Rightarrow> 'a list \<Rightarrow> js_error + 'a list" where
  "filter_safe p [] = Inr []"
| "filter_safe p (x # xs) =
     (case p x of
        Inl e \<Rightarrow> Inl e
      | Inr b \<Rightarrow>
          (case filter_safe p xs of
             Inl e \<Rightarrow> Inl e
           | Inr ys \<Rightarrow> Inr (if b then x # ys else ys)))"

text \<open>
  One round of the \<open>reduce\<close> over the MCP mentions. \<open>acc[mention.serverId] ?? []\<close> is the own
  list, or the empty list when there is nothing under the id; an inherited value is not
  nullish, and spreading it into the array literal throws.
\<close>

fun mentionsByServer_step ::
  "(string \<times> mcp_tool) list \<Rightarrow> ChatMention \<Rightarrow> (string \<times> string list) list \<Rightarrow>
     js_error + (string \<times> string list) list"
where
  "mentionsByServer_step tools (McpServerMention sid) acc =
     Inr (AList.update sid (map (\<lambda>(k, t). mcp_originToolName t) tools) acc)"
| "mentionsByServer_step tools (McpToolMention sid name) acc =
     (case js_get acc sid of
        Own names \<Rightarrow> Inr (AList.update sid (names @ [name]) acc)
      | Missing \<Rightarrow> Inr (AList.update sid [name] acc)
      | Inherited \<Rightarrow> Inl (JsError ''TypeError'' ''acc[mention.serverId] is not iterable''))"
| "mentionsByServer_step tools _ acc = Inr acc"

definition mentionsByServer ::
  "(string \<times> mcp_tool) list \<Rightarrow> ChatMention list \<Rightarrow> js_error + (string \<times> string list) list" where
  "mentionsByServer tools mentions =
     reduce_safe (mentionsByServer_step tools) (filter is_mcp_mention mentions) []"

text \<open>
  The test of a tool: \<open>false\<close> when there is nothing under its server id; an inherited value
  passes \<open>!metionsByServer[id]\<close> and has no \<open>includes\<close>, so the call throws.
\<close>

definition mentioned_in :: "(string \<times> string list) list \<Rightarrow> string \<times> mcp_tool \<Rightarrow> js_error + bool" where
  "mentioned_in byServer e =
     (case js_get byServer (mcp_serverId (snd e)) of
        Missing \<Rightarrow> Inr False
      | Own names \<Rightarrow> Inr (mcp_originToolName (snd e) \<in> set names)
      | Inherited \<Rightarrow>
          Inl (JsError ''TypeError'' ''metionsByServer[_tool._mcpServerId].includes is not a function''))"

definition filterMCPToolsByMentions ::
  "(string \<times> mcp_tool) list \<Rightarrow> ChatMention list \<Rightarrow> js_error + (string \<times> mcp_tool) list" where
  "filterMCPToolsByMentions tools mentions =
     (if length mentions = 0 then Inr tools
      else (case mentionsByServer tools mentions of
              Inl e \<Rightarrow> Inl e
            | Inr byServer \<Rightarrow> filter_safe (mentioned_in byServer) tools))"

subsection \<open>\<open>filterMCPToolsByAllowedMCPServers\<close>\<close>

text \<open>
  An \<open>AllowedMCPServer\<close> is \<open>{tools: string[]}\<close>; the allow-list maps server ids to them.
  An inherited value has no \<open>tools\<close>, so \<open>!allowedMcpServers[id]?.tools\<close> holds for it as
  it does when there is nothing under the id.
\<close>

definition filterMCPToolsByAllowedMCPServers ::
  "(string \<times> mcp_tool) list \<Rightarrow> (string \<times> string list) list option \<Rightarrow> (string \<times> mcp_tool) list" where
  "filterMCPToolsByAllowedMCPServers tools allowedMcpServers =
     (case allowedMcpServers of
        None \<Rightarrow> []
      | Some allowed \<Rightarrow>
          if length allowed = 0 then []
          else filter (\<lambda>(k, t).
                 case js_get allowed (mcp_serverId t) of
                   Own names \<Rightarrow> mcp_originToolName t \<in> set names
                 | Inherited \<Rightarrow> False
                 | Missing \<Rightarrow> False) tools)"

subsection \<open>\<open>excludeToolExecution\<close>\<close>

text \<open>\<open>createTool({inputSchema, description})\<close>: a tool with no executor and no tag.\<close>

definition excludeToolExecution :: "registry \<Rightarrow> registry" where
  "excludeToolExecution tools =
     map (\<lambda>(k, v). (k, PlainTool \<lparr>description = description (base_tool v),
                                 inputSchema = inputSchema (base_tool v),
                                 execute = None\<rparr>)) tools"

section \<open>Workflow tool names\<close>

text \<open>
  \<open>workflowToVercelAITool\<close>, the key of the tool:
  \<open>name.replace(/[^a-zA-Z0-9\s]/g, "").trim().replace(/\s+/g, "-").toUpperCase()\<close>.
\<close>

definition toolName_of :: "string \<Rightarrow> string" where
  "toolName_of name = toUpperCase (hyphenate (trim (remove_special name)))"

record workflow_shape =
  ws_id :: string
  ws_name :: string
  ws_description :: "string option"
  ws_schema :: jsval

text \<open>
  \<open>workflowToVercelAITool\<close>. The description is the template string
  \<open>`${name} ${description?.trim().slice(0, 50)}`\<close>, which prints a missing description as
  \<open>undefined\<close>; \<open>jsonSchema\<close> wraps the schema without changing it.
\<close>

definition workflowToVercelAITool :: "workflow_shape \<Rightarrow> workflow_tool" where
  "workflowToVercelAITool w =
     \<lparr>description = Some (ws_name w @ '' '' @
         (case ws_description w of None \<Rightarrow> ''undefined'' | Some d \<Rightarrow> take 50 (trim d))),
      inputSchema = ws_schema w,
      execute = Some (WorkflowExecute (ws_id w) (ws_name w)),
      wf_workflowId = ws_id w,
      wf_originToolName = ws_name w,
      wf_toolName = toolName_of (ws_name w)\<rparr>"

text \<open>\<open>workflowToVercelAITools\<close>: \<open>prev[cur._toolName] = cur\<close> over the converted list.\<close>

definition workflowToVercelAITools :: "workflow_shape list \<Rightarrow> (string \<times> workflow_tool) list" where
  "workflowToVercelAITools workflows =
     fold (\<lambda>cur prev. AList.update (wf_toolName cur) cur prev)
          (map workflowToVercelAITool workflows) []"

section \<open>The workflow tool\<close>

text \<open>
  What the adapter reads of a stored workflow, of the events of the DAG engine and of the
  result of a run. A \<open>NODE_START\<close> event carries \<open>e.node.name\<close>, \<open>e.nodeExecutionId\<close> and
  \<open>e.startedAt\<close>; a \<open>NODE_END\<close> event also \<open>e.isOk\<close>, the input and output snapshot the
  handler reads from \<open>e.node.output\<close>, \<open>e.error\<close> and \<open>e.endedAt\<close>.
\<close>

record wf_node =
  node_id :: string
  node_name :: string
  node_kind :: string

record workflow =
  wf_nodes :: "wf_node list"
  wf_edges :: jsval
  wf_icon :: jsval

datatype wf_event =
    WORKFLOW_START
  | WORKFLOW_END
  | NODE_START string string int
  | NODE_END string string bool jsval jsval "js_error option" int

record run_result =
  r_isOk :: bool
  r_error :: "js_error option"

datatype node_status = Running | Success | Fail

record node_result =
  nr_input :: jsval
  nr_output :: jsval

record error_info =
  ei_name :: string
  ei_message :: string

text \<open>An entry of the history (\<open>VercelAIWorkflowToolStreaming\<close>).\<close>

record history_entry =
  h_id :: string
  h_name :: string
  h_status :: node_status
  h_startedAt :: int
  h_kind :: string
  h_result :: "node_result option"
  h_error :: "error_info option"
  h_endedAt :: "int option"

text \<open>The result of a workflow tool call (\<open>VercelAIWorkflowToolStreamingResult\<close>).\<close>

record workflow_tool_result =
  tr_toolCallId :: string
  tr_workflowName :: string
  tr_workflowIcon :: jsval
  tr_startedAt :: int
  tr_endedAt :: int
  tr_history :: "history_entry list"
  tr_result :: jsval
  tr_status :: node_status
  tr_error :: "error_info option"

text \<open>
  The output of a tool call, as a tool part holds it and as an executor returns it. The
  constructors are the tags the source tests: \<open>ManualToolConfirmTag\<close> on \<open>{confirm}\<close>,
  \<open>VercelAIWorkflowToolStreamingResultTag\<close> on the result of a workflow tool. The untagged
  object \<open>{error: {name, message, history}}\<close> is what a failed workflow call returns; every
  other value is \<open>OutputValue\<close>.
\<close>

datatype tool_output =
    OutputValue jsval
  | ManualToolConfirm bool
  | WorkflowStreamingResult workflow_tool_result
  | WorkflowFailure string string "history_entry list"

text \<open>
  The collaborators of the adapter that are not part of these sources: \<open>errorToString\<close>
  (of \<open>lib/utils\<close>, applied also to a missing error), the constant \<open>NodeKind.Output\<close>, the
  clock (the n-th reading of \<open>Date.now()\<close> in one call), the workflow repository and the DAG
  engine. A run of the engine delivers events to the subscriber and then resolves to a
  result or throws; \<open>createWorkflowExecutor\<close> throwing is a run with no events that throws.
\<close>

record wf_env =
  errorToString :: "js_error option \<Rightarrow> string"
  NodeKind_Output :: string
  date_now :: "nat \<Rightarrow> int"
  selectStructureById :: "string \<Rightarrow> js_error + workflow option"
  engine_run :: "workflow \<Rightarrow> jsval \<Rightarrow> wf_event list \<times> (js_error + run_result)"

text \<open>\<open>x || d\<close> on strings and \<open>err?.name || "ERROR"\<close>.\<close>

definition or_default :: "string \<Rightarrow> string \<Rightarrow> string" where
  "or_default x d = (if x = [] then d else x)"

definition error_name_or :: "js_error option \<Rightarrow> string" where
  "error_name_or e = (case e of None \<Rightarrow> ''ERROR'' | Some err \<Rightarrow> or_default (err_name err) ''ERROR'')"

text \<open>\<open>history.find((r) => r.id == e.nodeExecutionId)\<close>, then the update of that entry in place.\<close>

fun update_first :: "('a \<Rightarrow> bool) \<Rightarrow> ('a \<Rightarrow> 'a) \<Rightarrow> 'a list \<Rightarrow> 'a list" where
  "update_first P f [] = []"
| "update_first P f (x # xs) = (if P x then f x # xs else x # update_first P f xs)"

text \<open>
  The subscriber. Its state is the history and the snapshots of it written to the data
  stream (\<open>dataStream.write\<close> of the tool result, once per handled node event).
\<close>

fun on_event ::
  "('z wf_env_scheme) \<Rightarrow> workflow \<Rightarrow> wf_event \<Rightarrow>
     history_entry list \<times> history_entry list list \<Rightarrow> history_entry list \<times> history_entry list list"
where
  "on_event env flow WORKFLOW_START st = st"
| "on_event env flow WORKFLOW_END st = st"
| "on_event env flow (NODE_START node execId startedAt) (history, writes) =
     (if node = ''SKIP'' then (history, writes)
      else case find (\<lambda>n. node_id n = node) (wf_nodes flow) of
        None \<Rightarrow> (history, writes)
      | Some n \<Rightarrow>
          (let history' = history @
                 [\<lparr>h_id = execId, h_name = node_name n, h_status = Running,
                   h_startedAt = startedAt, h_kind = node_kind n,
                   h_result = None, h_error = None, h_endedAt = None\<rparr>]
           in (history', writes @ [history'])))"
| "on_event env flow (NODE_END node execId isOk inp out err endedAt) (history, writes) =
     (if node = ''SKIP'' then (history, writes)
      else
        (let history' = update_first (\<lambda>r. h_id r = execId)
               (\<lambda>r. (if isOk
                      then r\<lparr>h_status := Success,
                             h_result := Some \<lparr>nr_input = inp, nr_output = out\<rparr>\<rparr>
                      else r\<lparr>h_status := Fail,
                             h_error := Some \<lparr>ei_name = error_name_or err,
                                              ei_message = errorToString env err\<rparr>\<rparr>)
                     \<lparr>h_endedAt := Some endedAt\<rparr>)
               history
         in (history', writes @ [history'])))"

definition run_history :: "('z wf_env_scheme) \<Rightarrow> workflow \<Rightarrow> wf_event list \<Rightarrow> history_entry list" where
  "run_history env flow events = fst (fold (on_event env flow) events ([], []))"

text \<open>
  The last step of \<open>execute\<close>:
  \<open>history.filter((h) => h.kind == NodeKind.Output).map((v) => v.result?.output).filter(Boolean)\<close>,
  the history without the results of the nodes, and the result of the call.
\<close>

definition outputNodeResults :: "('z wf_env_scheme) \<Rightarrow> history_entry list \<Rightarrow> jsval list" where
  "outputNodeResults env history =
     filter truthy
       (map (\<lambda>v. case h_result v of None \<Rightarrow> JUndefined | Some r \<Rightarrow> nr_output r)
          (filter (\<lambda>h. h_kind h = NodeKind_Output env) history))"

definition strip_result :: "history_entry \<Rightarrow> history_entry" where
  "strip_result h = h\<lparr>h_result := None\<rparr>"

definition finish_run ::
  "('z wf_env_scheme) \<Rightarrow> workflow_tool_result \<Rightarrow> history_entry list \<Rightarrow> run_result \<Rightarrow> workflow_tool_result"
where
  "finish_run env toolResult history res =
     toolResult
       \<lparr>tr_endedAt := date_now env 2,
        tr_status := (if r_isOk res then Success else Fail),
        tr_error := (case r_error res of
                       None \<Rightarrow> None
                     | Some e \<Rightarrow> Some \<lparr>ei_name = or_default (err_name e) ''ERROR'',
                                       ei_message = or_default (errorToString env (Some e)) ''Unknown Error''\<rparr>),
        tr_history := map strip_result history,
        tr_result := (let outs = outputNodeResults env history
                      in if length outs = 1 then outs ! 0 else JArr outs)\<rparr>"

text \<open>
  \<open>execute\<close> of the tool \<open>workflowToVercelAITool\<close> makes, for the workflow \<open>wid\<close> named
  \<open>name\<close>. \<open>history\<close> is the array the subscriber has filled when the chain ends: empty
  unless the workflow was found and the engine ran.
\<close>

definition nullish_or :: "jsval \<Rightarrow> jsval \<Rightarrow> jsval" where
  "nullish_or v d = (if v = JUndefined \<or> v = JNull then d else v)"

definition workflow_execute ::
  "('z wf_env_scheme) \<Rightarrow> string \<Rightarrow> string \<Rightarrow> jsval \<Rightarrow> string \<Rightarrow> js_error + tool_output"
where
  "workflow_execute env wid name query toolCallId =
     (let toolResult =
            \<lparr>tr_toolCallId = toolCallId, tr_workflowName = name, tr_workflowIcon = JUndefined,
             tr_startedAt = date_now env 0, tr_endedAt = date_now env 1, tr_history = [],
             tr_result = JUndefined, tr_status = Running, tr_error = None\<rparr>;
          selected = safe_map (selectStructureById env) (Inr wid);
          history =
            (case selected of
               Inr (Some flow) \<Rightarrow> run_history env flow (fst (engine_run env flow (nullish_or query (JObj []))))
             | _ \<Rightarrow> []);
          ran = safe_map
            (\<lambda>workflow. case workflow of
               None \<Rightarrow> Inl (JsError ''Error'' ''Not Found Workflow'')
             | Some flow \<Rightarrow>
                 (case snd (engine_run env flow (nullish_or query (JObj []))) of
                    Inl e \<Rightarrow> Inl e
                  | Inr res \<Rightarrow> Inr (toolResult\<lparr>tr_workflowIcon := wf_icon flow\<rparr>, res)))
            selected;
          finished = safe_map
            (\<lambda>(tr, res). Inr (WorkflowStreamingResult (finish_run env tr history res))) ran
      in unwrap (ifFail
           (\<lambda>err. Inr (WorkflowFailure (or_default (err_name err) ''ERROR'')
                          (errorToString env (Some err)) history))
           finished))"

section \<open>Message parts\<close>

text \<open>
  A tool part (\<open>ToolUIPart\<close> of the AI SDK) has the type \<open>tool-NAME\<close>, the id of the call,
  a state and, once the state is \<open>output-available\<close>, an output. Every other part is kept
  as the object it is.
\<close>

record tool_ui_part =
  p_toolName :: string
  p_toolCallId :: string
  p_state :: string
  p_input :: jsval
  p_output :: tool_output
  p_providerMetadata :: jsval
  p_callProviderMetadata :: jsval

datatype ui_part =
    ToolUIPart tool_ui_part
  | ObjectPart jsobject

fun part_type :: "ui_part \<Rightarrow> jsval" where
  "part_type (ToolUIPart t) = JStr (''tool-'' @ p_toolName t)"
| "part_type (ObjectPart ob) = get_prop ob ''type''"

text \<open>
  \<open>isToolUIPart\<close> and \<open>getToolName\<close> of the AI SDK: \<open>part.type.startsWith("tool-")\<close> and
  \<open>part.type.split("-").slice(1).join("-")\<close>, the type after its first hyphen.
\<close>

definition isToolUIPart :: "ui_part \<Rightarrow> bool" where
  "isToolUIPart p = (case part_type p of JStr s \<Rightarrow> take 5 s = ''tool-'' | _ \<Rightarrow> False)"

definition getToolName :: "tool_ui_part \<Rightarrow> string" where
  "getToolName t = drop 1 (dropWhile (\<lambda>c. c \<noteq> CHR ''-'') (''tool-'' @ p_toolName t))"

record ui_message =
  m_id :: string
  m_role :: string
  m_parts :: "ui_part list option"
  m_toolChoice :: "string option"

text \<open>\<open>m_toolChoice\<close> is \<open>(message.metadata as ChatMetadata)?.toolChoice\<close>.\<close>

subsection \<open>\<open>extractInProgressToolPart\<close>\<close>

fun is_manual_confirm :: "tool_output \<Rightarrow> bool" where
  "is_manual_confirm (ManualToolConfirm c) = True"
| "is_manual_confirm _ = False"

fun in_progress :: "ui_part \<Rightarrow> tool_ui_part option" where
  "in_progress (ToolUIPart t) =
     (if p_state t = ''output-available'' \<and> is_manual_confirm (p_output t) then Some t else None)"
| "in_progress (ObjectPart ob) = None"

text \<open>
  The tool parts of an assistant message in manual mode that hold a confirmation. An
  object that is not a tool part holds no tagged output. On a message without parts,
  \<open>message.parts.filter\<close> throws.
\<close>

definition extractInProgressToolPart :: "ui_message \<Rightarrow> js_error + tool_ui_part list" where
  "extractInProgressToolPart message =
     (if m_role message \<noteq> ''assistant'' then Inr []
      else if m_toolChoice message \<noteq> Some ''manual'' then Inr []
      else (case m_parts message of
              None \<Rightarrow> Inl (JsError ''TypeError'' ''message.parts is undefined'')
            | Some ps \<Rightarrow> Inr (List.map_filter in_progress ps)))"

subsection \<open>\<open>convertToSavePart\<close>\<close>

text \<open>
  \<open>exclude(part, ["providerMetadata", "callProviderMetadata"])\<close>, then the history of a
  workflow result loses the results of its nodes. On an object whose type starts with
  \<open>tool-\<close> and that has no string \<open>state\<close>, \<open>v.state.startsWith\<close> throws.
\<close>

definition exclude_metadata :: "ui_part \<Rightarrow> ui_part" where
  "exclude_metadata p =
     (case p of
        ToolUIPart t \<Rightarrow> ToolUIPart (t\<lparr>p_providerMetadata := JUndefined, p_callProviderMetadata := JUndefined\<rparr>)
      | ObjectPart ob \<Rightarrow> ObjectPart (AList.delete ''callProviderMetadata'' (AList.delete ''providerMetadata'' ob)))"

definition convertToSavePart :: "ui_part \<Rightarrow> js_error + ui_part" where
  "convertToSavePart part =
     unwrap (safe_map
       (\<lambda>v. case v of
          ToolUIPart t \<Rightarrow>
            (if isToolUIPart v \<and> take 6 (p_state t) = ''output''
             then (case p_output t of
                     WorkflowStreamingResult r \<Rightarrow>
                       Inr (ToolUIPart (t\<lparr>p_output := WorkflowStreamingResult
                              (r\<lparr>tr_history := map (\<lambda>h. h\<lparr>h_result := None\<rparr>) (tr_history r)\<rparr>)\<rparr>))
                   | _ \<Rightarrow> Inr v)
             else Inr v)
        | ObjectPart ob \<Rightarrow>
            (if isToolUIPart v \<and> \<not> is_string (get_prop ob ''state'')
             then Inl (JsError ''TypeError'' ''v.state.startsWith is not a function'')
             else Inr v))
       (Inr (exclude_metadata part)))"

section \<open>Manual confirmation\<close>

text \<open>
  The executors the gate can reach: the constant \<open>MANUAL_REJECT_RESPONSE_PROMPT\<close> (of
  \<open>lib/ai/prompts\<close>), \<open>mcpClientsManager.toolCall\<close> and the executors the adapters supplied,
  by their handles.
\<close>

record exec_env = wf_env +
  MANUAL_REJECT_RESPONSE_PROMPT :: string
  mcp_toolCall :: "string \<Rightarrow> string \<Rightarrow> jsval \<Rightarrow> js_error + tool_output"
  adapter_execute :: "string \<Rightarrow> jsval \<Rightarrow> string \<Rightarrow> js_error + tool_output"

text \<open>Every call of an executor is recorded, so that "never invoked" can be stated.\<close>

datatype invocation =
    ExecuteCall executor jsval string
  | McpToolCall string string jsval

definition run_executor ::
  "('z exec_env_scheme) \<Rightarrow> executor \<Rightarrow> jsval \<Rightarrow> string \<Rightarrow> js_error + tool_output" where
  "run_executor env ex inp toolCallId =
     (case ex of
        WorkflowExecute wid name \<Rightarrow> workflow_execute env wid name inp toolCallId
      | AdapterExecute h \<Rightarrow> adapter_execute env h inp toolCallId)"

text \<open>\<open>tool.execute!(input, {toolCallId, ...})\<close>: a tool without \<open>execute\<close> makes the call throw.\<close>

definition call_execute ::
  "('z exec_env_scheme) \<Rightarrow> executor option \<Rightarrow> jsval \<Rightarrow> string \<Rightarrow>
     (js_error + tool_output) \<times> invocation list" where
  "call_execute env ex inp toolCallId =
     (case ex of
        None \<Rightarrow> (Inl (JsError ''TypeError'' ''tool.execute is not a function''), [])
      | Some e \<Rightarrow> (run_executor env e inp toolCallId, [ExecuteCall e inp toolCallId]))"

definition tool_call_fail :: "('z exec_env_scheme) \<Rightarrow> string \<Rightarrow> js_error \<Rightarrow> tool_output" where
  "tool_call_fail env toolName err =
     OutputValue (JObj [(''isError'', JBool True),
                        (''statusMessage'', JStr (''tool call fail: '' @ toolName)),
                        (''error'', JStr (errorToString env (Some err)))])"

text \<open>
  \<open>manualToolExecuteByLastMessage\<close>: the outcome of the call (\<open>Inl\<close> if it throws) and the
  executors it invoked. The registry is a plain object, so \<open>tools[toolName]\<close> is a tool of
  the registry, nothing, or an inherited value. The latter passes the guard \<open>!tool\<close>; it
  has neither tag and no \<open>execute\<close>, so a confirmed call of it throws inside the chain.
\<close>

definition manualToolExecuteByLastMessage ::
  "('z exec_env_scheme) \<Rightarrow> tool_ui_part \<Rightarrow> registry \<Rightarrow> (js_error + tool_output) \<times> invocation list"
where
  "manualToolExecuteByLastMessage env part tools =
     (let inp = p_input part;
          toolName = getToolName part;
          tool = js_get tools toolName;
          checked =
            (case tool of
               Missing \<Rightarrow> Inl (JsError ''Error'' (''tool not found: '' @ toolName))
             | _ \<Rightarrow>
                 (case p_output part of
                    ManualToolConfirm confirm \<Rightarrow> Inr confirm
                  | _ \<Rightarrow> Inl (JsError ''Error'' ''manual tool confirm not found'')));
          (mapped, calls) =
            (case checked of
               Inl e \<Rightarrow> (Inl e, [])
             | Inr confirm \<Rightarrow>
                 if \<not> confirm then (Inr (OutputValue (JStr (MANUAL_REJECT_RESPONSE_PROMPT env))), [])
                 else (case tool of
                         Own (WorkflowTool w) \<Rightarrow> call_execute env (execute w) inp (p_toolCallId part)
                       | Own (McpTool m) \<Rightarrow>
                           (mcp_toolCall env (mcp_serverId m) (mcp_originToolName m) inp,
                            [McpToolCall (mcp_serverId m) (mcp_originToolName m) inp])
                       | Own (PlainTool p) \<Rightarrow> call_execute env (execute p) inp (p_toolCallId part)
                       | _ \<Rightarrow> call_execute env None inp (p_toolCallId part)))
      in (unwrap (ifFail (\<lambda>err. Inr (tool_call_fail env toolName err)) mapped), calls))"

section \<open>Loading the tools of a turn\<close>

text \<open>
  The tool sources of a turn: what \<open>mcpClientsManager.getClients()\<close> and the n-th call of
  \<open>mcpClientsManager.tools()\<close> answer (the number of clients is all the route reads of
  the former), the workflow repository's \<open>selectToolByIds\<close>, the built-in toolkits
  \<open>APP_DEFAULT_TOOL_KIT\<close> with the values of the enum \<open>AppDefaultToolkit\<close>, and whether the
  model supports tool calls (\<open>!isToolCallUnsupportedModel(model)\<close>).
\<close>

record turn_env = exec_env +
  mcp_getClients :: "js_error + nat"
  mcp_tools :: "nat \<Rightarrow> js_error + (string \<times> mcp_tool) list"
  selectToolByIds :: "string list \<Rightarrow> js_error + workflow_shape list"
  APP_DEFAULT_TOOL_KIT :: "(string \<times> (string \<times> tool) list) list"
  AppDefaultToolkit :: "string list"
  supportToolCall :: bool

text \<open>
  \<open>loadMcpTools\<close>, given the answer of \<open>mcpClientsManager.tools()\<close> to its call.
\<close>

definition loadMcpTools ::
  "js_error + (string \<times> mcp_tool) list \<Rightarrow> ChatMention list \<Rightarrow>
     (string \<times> string list) list option \<Rightarrow> (string \<times> mcp_tool) list" where
  "loadMcpTools answer mentions allowedMcpServers =
     orElse []
       (safe_map
          (\<lambda>tools. if length mentions \<noteq> 0 then filterMCPToolsByMentions tools mentions
                    else Inr (filterMCPToolsByAllowedMCPServers tools allowedMcpServers))
          answer)"

fun workflow_mention_id :: "ChatMention \<Rightarrow> string option" where
  "workflow_mention_id (WorkflowMention wid) = Some wid"
| "workflow_mention_id _ = None"

definition loadWorkFlowTools ::
  "('z turn_env_scheme) \<Rightarrow> ChatMention list \<Rightarrow> (string \<times> workflow_tool) list" where
  "loadWorkFlowTools env mentions =
     orElse []
       (safe_map (\<lambda>tools. Inr (workflowToVercelAITools tools))
          (if length mentions \<noteq> 0
           then selectToolByIds env (List.map_filter workflow_mention_id mentions)
           else Inr []))"

fun default_tool_mention_name :: "ChatMention \<Rightarrow> string option" where
  "default_tool_mention_name (DefaultToolMention name) = Some name"
| "default_tool_mention_name _ = None"

definition loadAppDefaultTools ::
  "('z turn_env_scheme) \<Rightarrow> ChatMention list \<Rightarrow> string list option \<Rightarrow> (string \<times> tool) list" where
  "loadAppDefaultTools env mentions allowedAppDefaultToolkit =
     orElse []
       (ifFail (\<lambda>e. Inl e)
          (safe_map
             (\<lambda>tools. Inr
                (if length mentions \<noteq> 0
                 then (let defaultToolMentions = List.map_filter default_tool_mention_name mentions
                       in fold (\<lambda>t acc. spread acc (filter (\<lambda>(k, v). k \<in> set defaultToolMentions) t))
                            (map snd tools) [])
                 else (let allowed = (case allowedAppDefaultToolkit of
                                        None \<Rightarrow> AppDefaultToolkit env
                                      | Some a \<Rightarrow> a)
                       in fold (\<lambda>key acc. spread acc (case js_get tools key of Own t \<Rightarrow> t | _ \<Rightarrow> []))
                            allowed [])))
             (Inr (APP_DEFAULT_TOOL_KIT env))))"

section \<open>The registry of a turn\<close>

record chat_request =
  toolChoice :: string
  mentions :: "ChatMention list"
  allowedMcpServers :: "(string \<times> string list) list option"
  allowedAppDefaultToolkit :: "string list option"
  message :: ui_message

text \<open>
  \<open>mentions\<close> are the mentions of the request followed by those of the agent. The three
  sources enter one registry as values of the union type.
\<close>

definition isToolCallAllowed :: "('z turn_env_scheme) \<Rightarrow> chat_request \<Rightarrow> bool" where
  "isToolCallAllowed env req \<longleftrightarrow>
     supportToolCall env \<and> (toolChoice req \<noteq> ''none'' \<or> length (mentions req) > 0)"

definition if_allowed :: "('z turn_env_scheme) \<Rightarrow> chat_request \<Rightarrow> 'a list \<Rightarrow> 'a list" where
  "if_allowed env req load =
     orElse []
       (safe_map (\<lambda>u. Inr load)
          (safe_map (errorIf (\<lambda>u. if \<not> isToolCallAllowed env req then Some ''Not allowed'' else None))
             (Inr ())))"

definition as_mcp :: "(string \<times> mcp_tool) list \<Rightarrow> registry" where
  "as_mcp tools = map (\<lambda>(k, t). (k, McpTool t)) tools"

definition as_workflow :: "(string \<times> workflow_tool) list \<Rightarrow> registry" where
  "as_workflow tools = map (\<lambda>(k, t). (k, WorkflowTool t)) tools"

definition as_plain :: "(string \<times> tool) list \<Rightarrow> registry" where
  "as_plain tools = map (\<lambda>(k, t). (k, PlainTool t)) tools"

text \<open>
  The registry handed to the model (\<open>vercelAITooles\<close>):
  \<open>{...bindingTools, ...APP_DEFAULT_TOOLS}\<close>, where \<open>bindingTools\<close> is
  \<open>{...MCP_TOOLS, ...WORKFLOW_TOOLS}\<close>, without its executors when the tool choice is manual.
\<close>

definition is_manual :: "chat_request \<Rightarrow> bool" where
  "is_manual req \<longleftrightarrow> toolChoice req = ''manual'' \<or> m_toolChoice (message req) = Some ''manual''"

definition vercelAITooles :: "bool \<Rightarrow> registry \<Rightarrow> registry \<Rightarrow> registry \<Rightarrow> registry" where
  "vercelAITooles manual MCP_TOOLS WORKFLOW_TOOLS APP_DEFAULT_TOOLS =
     (let t = spread MCP_TOOLS WORKFLOW_TOOLS;
          bindingTools = (if manual then excludeToolExecution t else t)
      in spread bindingTools APP_DEFAULT_TOOLS)"

text \<open>
  What \<open>execute\<close> of the stream of \<open>POST\<close> computes before it calls the model: the three
  tool sets, the outputs of the calls that waited for a confirmation (with the executors
  invoked for them) and the registry. \<open>Inl\<close> is a turn that fails: \<open>execute\<close> throws.
\<close>

record turn_tools =
  t_MCP_TOOLS :: registry
  t_WORKFLOW_TOOLS :: registry
  t_APP_DEFAULT_TOOLS :: registry
  t_confirmed :: "((js_error + tool_output) \<times> invocation list) list"
  t_vercelAITooles :: registry

definition POST_execute :: "('z turn_env_scheme) \<Rightarrow> chat_request \<Rightarrow> js_error + turn_tools" where
  "POST_execute env req =
     (case mcp_getClients env of
        Inl e \<Rightarrow> Inl e
      | Inr mcpClients \<Rightarrow>
     (case mcp_tools env 0 of
        Inl e \<Rightarrow> Inl e
      | Inr mcpTools \<Rightarrow>
          (let MCP_TOOLS = as_mcp (if_allowed env req
                 (loadMcpTools (mcp_tools env 1) (mentions req) (allowedMcpServers req)));
               WORKFLOW_TOOLS = as_workflow (if_allowed env req
                 (loadWorkFlowTools env (mentions req)));
               APP_DEFAULT_TOOLS = as_plain (if_allowed env req
                 (loadAppDefaultTools env (mentions req) (allowedAppDefaultToolkit req)))
           in (case extractInProgressToolPart (message req) of
                 Inl e \<Rightarrow> Inl e
               | Inr inProgressToolParts \<Rightarrow>
                   (let confirmed = map (\<lambda>part. manualToolExecuteByLastMessage env part
                          (spread (spread MCP_TOOLS WORKFLOW_TOOLS) APP_DEFAULT_TOOLS))
                        inProgressToolParts
                    in Inr \<lparr>t_MCP_TOOLS = MCP_TOOLS,
                            t_WORKFLOW_TOOLS = WORKFLOW_TOOLS,
                            t_APP_DEFAULT_TOOLS = APP_DEFAULT_TOOLS,
                            t_confirmed = confirmed,
                            t_vercelAITooles =
                              vercelAITooles (is_manual req) MCP_TOOLS WORKFLOW_TOOLS
                                APP_DEFAULT_TOOLS\<rparr>)))))"

section \<open>The message sanitizer\<close>

text \<open>
  The sanitizer logs through \<open>logger\<close>, reads the clock and fetches files. A log entry
  keeps the level and the fixed text of the message. \<open>fetch\<close> answers with a response or
  throws; of a response the source reads \<open>ok\<close>, the body as text and the body as bytes,
  which it encodes in base 64 (the encoding is the collaborator's, and may throw).
\<close>

datatype log_entry = Warn string | Info string | Error string

record fetch_response =
  r_ok :: bool
  r_body_text :: "js_error + string"
  r_body_base64 :: "js_error + string"

record san_env =
  fetch :: "jsval \<Rightarrow> js_error + fetch_response"
  san_now :: "nat \<Rightarrow> nat"

record san_state =
  logs :: "log_entry list"
  ticks :: nat

definition log :: "log_entry \<Rightarrow> san_state \<Rightarrow> san_state" where
  "log e st = st\<lparr>logs := logs st @ [e]\<rparr>"

subsection \<open>\<open>fetchFileContentForAI\<close>\<close>

text \<open>
  Every failure inside the \<open>try\<close> block, \<open>mediaType.startsWith\<close> on a value that is not a
  string included, ends in the \<open>catch\<close> clause: the function returns \<open>null\<close>.
\<close>

definition fetchFileContentForAI ::
  "('z san_env_scheme) \<Rightarrow> jsval \<Rightarrow> jsval \<Rightarrow> san_state \<Rightarrow> string option \<times> san_state" where
  "fetchFileContentForAI env fileUrl mediaType st =
     (let failed = (None, log (Error ''Error fetching file content from'') st)
      in case fetch env fileUrl of
        Inl e \<Rightarrow> failed
      | Inr response \<Rightarrow>
          if \<not> r_ok response then (None, log (Warn ''Failed to fetch file content from'') st)
          else (case mediaType of
                  JStr mt \<Rightarrow>
                    (case (if take 5 mt = ''text/'' \<or> mt = ''application/json'' \<or>
                              mt = ''text/csv'' \<or> mt = ''text/markdown''
                           then r_body_text response else r_body_base64 response) of
                       Inl e \<Rightarrow> failed
                     | Inr content \<Rightarrow> (Some content, st))
                | _ \<Rightarrow> failed))"

subsection \<open>Parts\<close>

definition sanitize_text :: "jsobject \<Rightarrow> san_state \<Rightarrow> jsobject option \<times> san_state" where
  "sanitize_text ob st =
     (case get_prop ob ''text'' of
        JStr t \<Rightarrow>
          if t = [] then (None, log (Warn ''Removing malformed text part:'') st)
          else if length (trim t) = 0 then (None, log (Warn ''Removing empty text part'') st)
          else (Some ob, st)
      | _ \<Rightarrow> (None, log (Warn ''Removing malformed text part:'') st))"

definition sanitize_image :: "jsobject \<Rightarrow> san_state \<Rightarrow> jsobject option \<times> san_state" where
  "sanitize_image ob st =
     (let image = get_prop ob ''image''; mediaType = get_prop ob ''mediaType''
      in if \<not> truthy image
         then (None, log (Warn ''Removing malformed image part missing image property:'') st)
         else if \<not> is_string image
         then (None, log (Warn ''Removing image part with invalid image property type:'') st)
         else if truthy mediaType \<and> \<not> is_string mediaType
         then (Some (AList.delete ''mediaType'' ob),
               log (Info ''Valid image part found'')
                 (log (Warn ''Image part has invalid mediaType, removing mediaType property'') st))
         else (Some ob, log (Info ''Valid image part found'') st))"

text \<open>\<open>s.split(c)\<close>, the decimal digits of a number, and the table of media types.\<close>

fun split_on :: "char \<Rightarrow> string \<Rightarrow> string list" where
  "split_on c [] = [[]]"
| "split_on c (x # xs) =
     (if x = c then [] # split_on c xs
      else (case split_on c xs of [] \<Rightarrow> [[x]] | w # ws \<Rightarrow> (x # w) # ws))"

fun string_of_nat :: "nat \<Rightarrow> string" where
  "string_of_nat n =
     (if n < 10 then [digit_chars ! n]
      else string_of_nat (n div 10) @ [digit_chars ! (n mod 10)])"

definition mediaTypeMap :: "(string \<times> string) list" where
  "mediaTypeMap =
     [(''jpg'', ''image/jpeg''), (''jpeg'', ''image/jpeg''), (''png'', ''image/png''),
      (''gif'', ''image/gif''), (''webp'', ''image/webp''), (''pdf'', ''application/pdf''),
      (''txt'', ''text/plain''), (''csv'', ''text/csv''), (''json'', ''application/json''),
      (''md'', ''text/markdown''), (''markdown'', ''text/markdown''),
      (''js'', ''text/javascript''), (''ts'', ''application/typescript''),
      (''py'', ''text/x-python''), (''html'', ''text/html''), (''css'', ''text/css''),
      (''docx'', ''application/vnd.openxmlformats-officedocument.wordprocessingml.document''),
      (''xlsx'', ''application/vnd.openxmlformats-officedocument.spreadsheetml.sheet''),
      (''xls'', ''application/vnd.ms-excel''), (''zip'', ''application/zip'')]"

text \<open>
  \<open>mediaTypeMap[extension]\<close>. The table is an object literal, so the two lower-case names
  every object inherits give a value that is not a string.
\<close>

definition mediaTypeMap_get :: "string \<Rightarrow> jsval" where
  "mediaTypeMap_get extension =
     (case js_get mediaTypeMap extension of
        Own mt \<Rightarrow> JStr mt
      | Inherited \<Rightarrow> JObj []
      | Missing \<Rightarrow> JUndefined)"

text \<open>The file branch, in the order of the source. \<open>None\<close> is a part that is skipped.\<close>

definition file_payload ::
  "('z san_env_scheme) \<Rightarrow> jsobject \<Rightarrow> san_state \<Rightarrow> jsobject option \<times> san_state" where
  "file_payload env ob st =
     (let data = get_prop ob ''data''; url = get_prop ob ''url''
      in if \<not> truthy data \<and> \<not> truthy url
         then (None, log (Warn ''Removing file part - missing both data and url:'') st)
         else if truthy data \<and> \<not> is_string data
         then (None, log (Warn ''Removing file part - data property is not a string:'') st)
         else if \<not> truthy data \<and> truthy url
         then (case fetchFileContentForAI env url (get_prop ob ''mediaType'')
                      (log (Info ''File part has URL but no data - attempting to fetch content:'') st) of
                 (Some content, st') \<Rightarrow>
                   if content \<noteq> []
                   then (Some (AList.update ''data'' (JStr content) ob),
                         log (Info ''Successfully fetched content for file:'') st')
                   else (None, log (Warn ''Failed to fetch content for file:'') st')
               | (None, st') \<Rightarrow> (None, log (Warn ''Failed to fetch content for file:'') st'))
         else (Some ob, st))"

definition file_rename_mimeType :: "jsobject \<Rightarrow> san_state \<Rightarrow> jsobject \<times> san_state" where
  "file_rename_mimeType ob st =
     (if \<not> truthy (get_prop ob ''mediaType'') \<and> truthy (get_prop ob ''mimeType'')
      then (AList.delete ''mimeType'' (AList.update ''mediaType'' (get_prop ob ''mimeType'') ob),
            log (Info ''Fixed property naming: mimeType -> mediaType'') st)
      else (ob, st))"

definition file_infer_mediaType :: "jsobject \<Rightarrow> san_state \<Rightarrow> jsobject \<times> san_state" where
  "file_infer_mediaType ob st =
     (if \<not> truthy (get_prop ob ''mediaType'')
      then (let st1 = log (Warn ''File part missing mediaType, attempting to infer:'') st
            in case get_prop ob ''name'' of
              JStr name \<Rightarrow>
                if name = []
                then (AList.update ''mediaType'' (JStr ''application/octet-stream'') ob,
                      log (Warn ''Cannot infer mediaType - no filename available, using default'') st1)
                else (let extension = toLowerCase (last (split_on CHR ''.'' name))
                      in if extension \<noteq> [] \<and> truthy (mediaTypeMap_get extension)
                         then (AList.update ''mediaType'' (mediaTypeMap_get extension) ob,
                               log (Info ''Inferred mediaType:'') st1)
                         else (AList.update ''mediaType'' (JStr ''application/octet-stream'') ob,
                               log (Warn ''Unknown file extension:'') st1))
            | _ \<Rightarrow>
                (AList.update ''mediaType'' (JStr ''application/octet-stream'') ob,
                 log (Warn ''Cannot infer mediaType - no filename available, using default'') st1))
      else (ob, st))"

definition file_validate_mediaType :: "jsobject \<Rightarrow> san_state \<Rightarrow> jsobject \<times> san_state" where
  "file_validate_mediaType ob st =
     (case get_prop ob ''mediaType'' of
        JStr mt \<Rightarrow>
          if length (trim mt) = 0
          then (AList.update ''mediaType'' (JStr ''application/octet-stream'') ob,
                log (Warn ''Invalid mediaType after processing, using default:'') st)
          else (ob, st)
      | _ \<Rightarrow>
          (AList.update ''mediaType'' (JStr ''application/octet-stream'') ob,
           log (Warn ''Invalid mediaType after processing, using default:'') st))"

text \<open>
  \<open>`file_${Date.now()}.${filePart.mediaType.split("/")[1] || "bin"}`\<close>; the media type is a
  string when this step runs.
\<close>

definition file_default_name :: "nat \<Rightarrow> string \<Rightarrow> string" where
  "file_default_name now mediaType =
     ''file_'' @ string_of_nat now @ ''.'' @
       (case split_on CHR ''/'' mediaType of
          a # b # rest \<Rightarrow> or_default b ''bin''
        | _ \<Rightarrow> ''bin'')"

definition file_ensure_name ::
  "('z san_env_scheme) \<Rightarrow> jsobject \<Rightarrow> san_state \<Rightarrow> jsobject \<times> san_state" where
  "file_ensure_name env ob st =
     (let name = get_prop ob ''name''
      in if \<not> truthy name \<or> \<not> is_string name
         then (AList.update ''name''
                 (JStr (file_default_name (san_now env (ticks st))
                    (case get_prop ob ''mediaType'' of JStr mt \<Rightarrow> mt | _ \<Rightarrow> [])))
                 ob,
               (log (Warn ''File part missing or invalid name property, generating default'') st)
                 \<lparr>ticks := Suc (ticks st)\<rparr>)
         else (ob, st))"

definition file_cleanup :: "jsobject \<Rightarrow> jsobject" where
  "file_cleanup ob = filter (\<lambda>(k, v). v \<noteq> JUndefined \<and> v \<noteq> JNull) ob"

definition sanitize_file ::
  "('z san_env_scheme) \<Rightarrow> jsobject \<Rightarrow> san_state \<Rightarrow> jsobject option \<times> san_state" where
  "sanitize_file env ob st =
     (case file_payload env ob st of
        (None, st1) \<Rightarrow> (None, st1)
      | (Some ob1, st1) \<Rightarrow>
          (let (ob2, st2) = file_rename_mimeType ob1 st1;
               (ob3, st3) = file_infer_mediaType ob2 st2;
               (ob4, st4) = file_validate_mediaType ob3 st3;
               (ob5, st5) = file_ensure_name env ob4 st4
           in (Some (file_cleanup ob5),
               log (Info ''Successfully validated/fixed file part:'') st5)))"

text \<open>
  The last two cases of the loop body: the parts let through as tool parts, and the unknown
  parts.
\<close>

definition sanitize_tool_or_unknown :: "ui_part \<Rightarrow> san_state \<Rightarrow> ui_part option \<times> san_state" where
  "sanitize_tool_or_unknown part st =
     (if part_type part = JStr ''tool-call'' \<or> part_type part = JStr ''tool-result''
      then (Some part, st)
      else (None, log (Warn ''Unknown part type encountered:'') st))"

text \<open>
  One round of the loop over the parts. The type of a tool part starts with \<open>tool-\<close>, so
  none of the first three tests holds for it.
\<close>

fun sanitize_part ::
  "('z san_env_scheme) \<Rightarrow> ui_part \<Rightarrow> san_state \<Rightarrow> ui_part option \<times> san_state" where
  "sanitize_part env (ToolUIPart t) st = sanitize_tool_or_unknown (ToolUIPart t) st"
| "sanitize_part env (ObjectPart ob) st =
     (if get_prop ob ''type'' = JStr ''text''
      then (case sanitize_text ob st of (r, st') \<Rightarrow> (map_option ObjectPart r, st'))
      else if get_prop ob ''type'' = JStr ''image''
      then (case sanitize_image ob st of (r, st') \<Rightarrow> (map_option ObjectPart r, st'))
      else if get_prop ob ''type'' = JStr ''file''
      then (case sanitize_file env ob st of (r, st') \<Rightarrow> (map_option ObjectPart r, st'))
      else sanitize_tool_or_unknown (ObjectPart ob) st)"

fun sanitize_parts ::
  "('z san_env_scheme) \<Rightarrow> ui_part list \<Rightarrow> san_state \<Rightarrow> ui_part list \<times> san_state" where
  "sanitize_parts env [] st = ([], st)"
| "sanitize_parts env (p # ps) st =
     (case sanitize_part env p st of
        (r, st1) \<Rightarrow>
          (case sanitize_parts env ps st1 of
             (validParts, st2) \<Rightarrow>
               ((case r of None \<Rightarrow> validParts | Some q \<Rightarrow> q # validParts), st2)))"

fun sanitize_messages ::
  "('z san_env_scheme) \<Rightarrow> ui_message list \<Rightarrow> san_state \<Rightarrow> ui_message list \<times> san_state" where
  "sanitize_messages env [] st = ([], st)"
| "sanitize_messages env (m # ms) st =
     (case m_parts m of
        None \<Rightarrow> (case sanitize_messages env ms st of (out, st') \<Rightarrow> (m # out, st'))
      | Some parts \<Rightarrow>
          (case sanitize_parts env parts st of
             (validParts, st1) \<Rightarrow>
               (case sanitize_messages env ms st1 of
                  (out, st2) \<Rightarrow> (m\<lparr>m_parts := Some validParts\<rparr> # out, st2))))"

definition sanitizeUIMessagesForConversion ::
  "('z san_env_scheme) \<Rightarrow> ui_message list \<Rightarrow> ui_message list \<times> log_entry list" where
  "sanitizeUIMessagesForConversion env messages =
     (case sanitize_messages env messages \<lparr>logs = [], ticks = 0\<rparr> of
        (out, st) \<Rightarrow> (out, logs st))"

section \<open>Auxiliary notions and example inputs\<close>

text \<open>
  The key of a workflow tool as the specification words it: special characters removed,
  whitespace runs replaced by hyphens, upper case. The source also trims.
\<close>

definition claimed_toolName :: "string \<Rightarrow> string" where
  "claimed_toolName name = toUpperCase (hyphenate (remove_special name))"

text \<open>
  Whether the list \<open>mentionsByServer\<close> builds for a server holds a tool name, and whether a
  tool is mentioned: by its server, or by its server and name.
\<close>

definition included :: "(string \<times> string list) list \<Rightarrow> string \<Rightarrow> string \<Rightarrow> bool" where
  "included acc sid n = (case map_of acc sid of None \<Rightarrow> False | Some names \<Rightarrow> n \<in> set names)"

definition mentioned :: "ChatMention list \<Rightarrow> mcp_tool \<Rightarrow> bool" where
  "mentioned ms t \<longleftrightarrow>
     McpServerMention (mcp_serverId t) \<in> set ms \<or>
     McpToolMention (mcp_serverId t) (mcp_originToolName t) \<in> set ms"

text \<open>
  The server ids that the filter looks up: those of the tools and of the \<open>mcpTool\<close>
  mentions. They are plain when none of them is a name every object inherits.
\<close>

fun plain_mention :: "ChatMention \<Rightarrow> bool" where
  "plain_mention (McpToolMention sid name) \<longleftrightarrow> sid \<notin> set object_prototype_names"
| "plain_mention _ \<longleftrightarrow> True"

definition plain_server_ids :: "(string \<times> mcp_tool) list \<Rightarrow> ChatMention list \<Rightarrow> bool" where
  "plain_server_ids tools ms \<longleftrightarrow>
     list_all (\<lambda>e. mcp_serverId (snd e) \<notin> set object_prototype_names) tools \<and>
     list_all plain_mention ms"

definition ex_mcp_tool :: "string \<Rightarrow> string \<Rightarrow> mcp_tool" where
  "ex_mcp_tool sid name =
     \<lparr>description = Some name, inputSchema = JObj [], execute = Some (AdapterExecute name),
      mcp_serverId = sid, mcp_originToolName = name\<rparr>"

definition ex_tool :: "string \<Rightarrow> tool" where
  "ex_tool name =
     \<lparr>description = Some name, inputSchema = JObj [], execute = Some (AdapterExecute name)\<rparr>"

definition ex_workflow :: "string \<Rightarrow> string \<Rightarrow> workflow_shape" where
  "ex_workflow wid name = \<lparr>ws_id = wid, ws_name = name, ws_description = None, ws_schema = JObj []\<rparr>"

definition ex_mcp_tools :: "(string \<times> mcp_tool) list" where
  "ex_mcp_tools = [(''search'', ex_mcp_tool ''s1'' ''search''), (''fetch'', ex_mcp_tool ''s2'' ''fetch'')]"

text \<open>What \<open>excludeToolExecution\<close> leaves of a tool.\<close>

definition without_execute :: "registry_tool \<Rightarrow> registry_tool" where
  "without_execute v =
     PlainTool \<lparr>description = description (base_tool v), inputSchema = inputSchema (base_tool v),
                execute = None\<rparr>"

text \<open>
  A turn in manual mode without mentions: two MCP servers with one allowed tool each, two
  built-in toolkits, and a built-in tool that has the name of an MCP tool, \<open>search\<close>.
\<close>

definition ex_env :: turn_env where
  "ex_env =
     \<lparr>errorToString = (\<lambda>e. case e of None \<Rightarrow> ''unknown error'' | Some x \<Rightarrow> err_message x),
      NodeKind_Output = ''output'',
      date_now = (\<lambda>n. int n),
      selectStructureById = (\<lambda>wid. Inr None),
      engine_run = (\<lambda>flow q. ([], Inr \<lparr>r_isOk = True, r_error = None\<rparr>)),
      MANUAL_REJECT_RESPONSE_PROMPT = ''The user rejected the tool call.'',
      mcp_toolCall = (\<lambda>sid name inp. Inr (OutputValue inp)),
      adapter_execute = (\<lambda>h inp tcid. Inr (OutputValue inp)),
      mcp_getClients = Inr 2,
      mcp_tools = (\<lambda>n. Inr ex_mcp_tools),
      selectToolByIds = (\<lambda>ids. Inr (map (\<lambda>i. ex_workflow i i) ids)),
      APP_DEFAULT_TOOL_KIT =
        [(''webSearch'', [(''search'', ex_tool ''webSearch'')]), (''code'', [(''run'', ex_tool ''run'')])],
      AppDefaultToolkit = [''webSearch'', ''code''],
      supportToolCall = True\<rparr>"

definition ex_message :: ui_message where
  "ex_message = \<lparr>m_id = ''m1'', m_role = ''user'', m_parts = Some [], m_toolChoice = None\<rparr>"

definition ex_request :: chat_request where
  "ex_request =
     \<lparr>toolChoice = ''manual'', mentions = [],
      allowedMcpServers = Some [(''s1'', [''search'']), (''s2'', [''fetch''])],
      allowedAppDefaultToolkit = None, message = ex_message\<rparr>"

definition ex_turn :: turn_tools where
  "ex_turn =
     \<lparr>t_MCP_TOOLS = [(''search'', McpTool (ex_mcp_tool ''s1'' ''search'')),
                     (''fetch'', McpTool (ex_mcp_tool ''s2'' ''fetch''))],
      t_WORKFLOW_TOOLS = [],
      t_APP_DEFAULT_TOOLS = [(''search'', PlainTool (ex_tool ''webSearch'')),
                             (''run'', PlainTool (ex_tool ''run''))],
      t_confirmed = [],
      t_vercelAITooles =
        [(''search'', PlainTool (ex_tool ''webSearch'')),
         (''fetch'', PlainTool \<lparr>description = Some ''fetch'', inputSchema = JObj [], execute = None\<rparr>),
         (''run'', PlainTool (ex_tool ''run''))]\<rparr>"

text \<open>The same turn while the MCP client manager throws on every call of \<open>tools()\<close>.\<close>

definition down_env :: turn_env where
  "down_env = ex_env\<lparr>mcp_tools := (\<lambda>n. Inl (JsError ''Error'' ''MCP manager is not available''))\<rparr>"

text \<open>
  The toolkits the built-in source merges when there are no mentions: those of the
  allow-list, or of every value of \<open>AppDefaultToolkit\<close> when there is no allow-list.
\<close>

definition allowed_toolkits ::
  "('z turn_env_scheme) \<Rightarrow> string list option \<Rightarrow> (string \<times> tool) list list" where
  "allowed_toolkits env kit =
     map (\<lambda>key. case map_of (APP_DEFAULT_TOOL_KIT env) key of None \<Rightarrow> [] | Some t \<Rightarrow> t)
       (case kit of None \<Rightarrow> AppDefaultToolkit env | Some a \<Rightarrow> a)"

text \<open>A tool part that waits for the call of the tool \<open>name\<close> to be confirmed or rejected.\<close>

definition ex_part :: "bool \<Rightarrow> string \<Rightarrow> tool_ui_part" where
  "ex_part confirm name =
     \<lparr>p_toolName = name, p_toolCallId = ''call-1'', p_state = ''output-available'',
      p_input = JObj [(''q'', JStr ''x'')], p_output = ManualToolConfirm confirm,
      p_providerMetadata = JUndefined, p_callProviderMetadata = JUndefined\<rparr>"

text \<open>The two shapes a workflow tool call resolves to.\<close>

fun is_structured :: "tool_output \<Rightarrow> bool" where
  "is_structured (WorkflowStreamingResult r) = True"
| "is_structured (WorkflowFailure n m h) = True"
| "is_structured _ = False"

text \<open>
  The result field as the specification words it: the values of the output nodes that
  produced a result are, of every history entry of kind \<open>NodeKind.Output\<close> that has a
  result, the output of that result, in the order of the history; the field is that value
  when there is exactly one, and otherwise the list of them.
\<close>

definition produced_values :: "('z wf_env_scheme) \<Rightarrow> history_entry list \<Rightarrow> jsval list" where
  "produced_values env history =
     List.map_filter
       (\<lambda>h. if h_kind h = NodeKind_Output env then map_option nr_output (h_result h) else None)
       history"

definition claimed_result :: "('z wf_env_scheme) \<Rightarrow> history_entry list \<Rightarrow> jsval" where
  "claimed_result env history =
     (case produced_values env history of [v] \<Rightarrow> v | vs \<Rightarrow> JArr vs)"

text \<open>
  The values the source keeps: of these, the ones that are not falsy (\<open>undefined\<close>, \<open>null\<close>,
  \<open>false\<close>, \<open>0\<close> and the empty string are).
\<close>

definition truthy_values :: "('z wf_env_scheme) \<Rightarrow> history_entry list \<Rightarrow> jsval list" where
  "truthy_values env history = filter truthy (produced_values env history)"

text \<open>The history entries in which a result of a node is left.\<close>

definition with_payload :: "history_entry list \<Rightarrow> history_entry list" where
  "with_payload history = filter (\<lambda>h. h_result h \<noteq> None) history"

text \<open>
  A stored workflow of two nodes, a run of it that succeeds, and a run during which the
  engine throws an error without a name after the first node.
\<close>

definition ex_flow :: workflow where
  "ex_flow =
     \<lparr>wf_nodes = [\<lparr>node_id = ''n1'', node_name = ''Start'', node_kind = ''input''\<rparr>,
                  \<lparr>node_id = ''n2'', node_name = ''Result'', node_kind = ''output''\<rparr>],
      wf_edges = JArr [], wf_icon = JUndefined\<rparr>"

definition ex_events :: "wf_event list" where
  "ex_events =
     [WORKFLOW_START,
      NODE_START ''n1'' ''e1'' 10,
      NODE_END ''n1'' ''e1'' True (JObj []) (JObj [(''q'', JStr ''x'')]) None 11,
      NODE_START ''n2'' ''e2'' 12,
      NODE_END ''n2'' ''e2'' True (JObj [(''q'', JStr ''x'')]) (JObj [(''answer'', JNum 42)]) None 13,
      WORKFLOW_END]"

definition ex_wf_env :: turn_env where
  "ex_wf_env =
     ex_env\<lparr>selectStructureById := (\<lambda>wid. if wid = ''w1'' then Inr (Some ex_flow) else Inr None),
            engine_run := (\<lambda>flow q. (ex_events, Inr \<lparr>r_isOk = True, r_error = None\<rparr>))\<rparr>"

definition ex_failing_wf_env :: turn_env where
  "ex_failing_wf_env =
     ex_wf_env\<lparr>engine_run := (\<lambda>flow q. (take 3 ex_events, Inl (JsError [] ''engine stopped'')))\<rparr>"

text \<open>A run in which the output node, the only node that runs, produces the number 0.\<close>

definition ex_zero_events :: "wf_event list" where
  "ex_zero_events =
     [WORKFLOW_START,
      NODE_START ''n2'' ''e2'' 12,
      NODE_END ''n2'' ''e2'' True (JObj []) (JNum 0) None 13,
      WORKFLOW_END]"

definition ex_zero_wf_env :: turn_env where
  "ex_zero_wf_env =
     ex_wf_env\<lparr>engine_run := (\<lambda>flow q. (ex_zero_events, Inr \<lparr>r_isOk = True, r_error = None\<rparr>))\<rparr>"

definition ex_zero_history :: "history_entry list" where
  "ex_zero_history =
     [\<lparr>h_id = ''e2'', h_name = ''Result'', h_status = Success, h_startedAt = 12, h_kind = ''output'',
       h_result = Some \<lparr>nr_input = JObj [], nr_output = JNum 0\<rparr>, h_error = None,
       h_endedAt = Some 13\<rparr>]"

text \<open>
  The history the subscriber has built when the engine throws, the history of the run that
  succeeds before the results are removed, the result of the run in which the output node
  produces 0, and the part of a finished call of the workflow tool with a given output.
\<close>

definition ex_failed_history :: "history_entry list" where
  "ex_failed_history =
     [\<lparr>h_id = ''e1'', h_name = ''Start'', h_status = Success, h_startedAt = 10, h_kind = ''input'',
       h_result = Some \<lparr>nr_input = JObj [], nr_output = JObj [(''q'', JStr ''x'')]\<rparr>,
       h_error = None, h_endedAt = Some 11\<rparr>]"

definition ex_full_history :: "history_entry list" where
  "ex_full_history =
     [\<lparr>h_id = ''e1'', h_name = ''Start'', h_status = Success, h_startedAt = 10, h_kind = ''input'',
       h_result = Some \<lparr>nr_input = JObj [], nr_output = JObj [(''q'', JStr ''x'')]\<rparr>,
       h_error = None, h_endedAt = Some 11\<rparr>,
      \<lparr>h_id = ''e2'', h_name = ''Result'', h_status = Success, h_startedAt = 12, h_kind = ''output'',
       h_result = Some \<lparr>nr_input = JObj [(''q'', JStr ''x'')],
                         nr_output = JObj [(''answer'', JNum 42)]\<rparr>,
       h_error = None, h_endedAt = Some 13\<rparr>]"

definition ex_zero_result :: workflow_tool_result where
  "ex_zero_result =
     \<lparr>tr_toolCallId = ''call-1'', tr_workflowName = ''Demo'', tr_workflowIcon = JUndefined,
      tr_startedAt = 0, tr_endedAt = 2,
      tr_history =
        [\<lparr>h_id = ''e2'', h_name = ''Result'', h_status = Success, h_startedAt = 12,
          h_kind = ''output'', h_result = None, h_error = None, h_endedAt = Some 13\<rparr>],
      tr_result = JArr [], tr_status = Success, tr_error = None\<rparr>"

definition ex_workflow_part :: "tool_output \<Rightarrow> tool_ui_part" where
  "ex_workflow_part out =
     \<lparr>p_toolName = ''DEMO'', p_toolCallId = ''call-1'', p_state = ''output-available'',
      p_input = JUndefined, p_output = out,
      p_providerMetadata = JUndefined, p_callProviderMetadata = JUndefined\<rparr>"

definition ex_history :: "history_entry list" where
  "ex_history =
     [\<lparr>h_id = ''e1'', h_name = ''Start'', h_status = Success, h_startedAt = 10, h_kind = ''input'',
       h_result = None, h_error = None, h_endedAt = Some 11\<rparr>,
      \<lparr>h_id = ''e2'', h_name = ''Result'', h_status = Success, h_startedAt = 12, h_kind = ''output'',
       h_result = None, h_error = None, h_endedAt = Some 13\<rparr>]"

definition ex_result :: workflow_tool_result where
  "ex_result =
     \<lparr>tr_toolCallId = ''call-1'', tr_workflowName = ''Demo'', tr_workflowIcon = JUndefined,
      tr_startedAt = 0, tr_endedAt = 2, tr_history = ex_history,
      tr_result = JObj [(''answer'', JNum 42)], tr_status = Success, tr_error = None\<rparr>"

text \<open>
  The types of the parts the sanitizer lets through, and an assistant message with a text
  part and the part of a finished call of the tool \<open>search\<close>.
\<close>

definition known_types :: "jsval set" where
  "known_types = {JStr ''text'', JStr ''image'', JStr ''file'', JStr ''tool-call'', JStr ''tool-result''}"

definition ex_san_env :: san_env where
  "ex_san_env = \<lparr>fetch = (\<lambda>url. Inl (JsError ''Error'' ''offline'')), san_now = (\<lambda>n. 1700000000000 + n)\<rparr>"

definition ex_text_part :: ui_part where
  "ex_text_part = ObjectPart [(''type'', JStr ''text''), (''text'', JStr ''Searching the web.'')]"

definition ex_done_part :: tool_ui_part where
  "ex_done_part =
     \<lparr>p_toolName = ''search'', p_toolCallId = ''call-1'', p_state = ''output-available'',
      p_input = JObj [(''q'', JStr ''x'')], p_output = OutputValue (JStr ''3 results''),
      p_providerMetadata = JUndefined, p_callProviderMetadata = JUndefined\<rparr>"

definition ex_assistant_message :: ui_message where
  "ex_assistant_message =
     \<lparr>m_id = ''m2'', m_role = ''assistant'',
      m_parts = Some [ex_text_part, ToolUIPart ex_done_part], m_toolChoice = Some ''auto''\<rparr>"

section \<open>Properties of the string and object operations\<close>

lemmas string_defs = toolName_of_def toUpperCase_def trim_def
  remove_special_def is_ws_def is_alnum_def upper_char_def lower_letters_def upper_letters_def
  digit_chars_def

lemma toolName_of_example: "toolName_of ''My  flow #2 '' = ''MY-FLOW-2''"
  by (simp add: string_defs)

lemma map_of_fold_update:
  "map_of (fold (\<lambda>(k, v). AList.update k v) b a) = map_of a ++ map_of (rev b)"
proof (induction b arbitrary: a)
  case Nil
  then show ?case by simp
next
  case (Cons x b)
  obtain k v where x: "x = (k, v)" by (cases x)
  show ?case
    by (simp add: x Cons.IH update_conv' map_add_upd_left fun_eq_iff map_add_def split: option.splits)
qed

lemma distinct_fold_update:
  "distinct (map fst a) \<Longrightarrow> distinct (map fst (fold (\<lambda>(k, v). AList.update k v) b a))"
proof (induction b arbitrary: a)
  case Nil
  then show ?case by simp
next
  case (Cons x b)
  obtain k v where x: "x = (k, v)" by (cases x)
  show ?case using Cons.prems
    by (simp add: x Cons.IH distinct_update)
qed

lemma map_of_rev_distinct: "distinct (map fst b) \<Longrightarrow> map_of (rev b) = map_of b"
  by (metis distinct_rev map_of_inject_set rev_map set_rev)

lemma map_of_spread: "distinct (map fst b) \<Longrightarrow> map_of (spread a b) = map_of a ++ map_of b"
  by (simp add: spread_def map_of_fold_update map_of_rev_distinct)

lemma distinct_spread: "distinct (map fst a) \<Longrightarrow> distinct (map fst (spread a b))"
  by (simp add: spread_def distinct_fold_update)

lemma distinct_fold_spread:
  "distinct (map fst acc) \<Longrightarrow> distinct (map fst (fold (\<lambda>t acc. spread acc (g t)) xs acc))"
  by (induction xs arbitrary: acc) (simp_all add: distinct_spread)

lemma distinct_fold_update_key:
  "distinct (map fst acc) \<Longrightarrow>
     distinct (map fst (fold (\<lambda>cur prev. AList.update (key cur) cur prev) xs acc))"
  by (induction xs arbitrary: acc) (simp_all add: distinct_update)

lemma fold_update_last:
  "map_of (fold (\<lambda>cur prev. AList.update (key cur) cur prev) xs acc) k =
     (case filter (\<lambda>x. key x = k) xs of [] \<Rightarrow> map_of acc k | f # fs \<Rightarrow> Some (last (f # fs)))"
proof (induction xs arbitrary: acc)
  case Nil
  then show ?case by simp
next
  case (Cons x xs)
  show ?case
    by (simp add: Cons.IH update_conv' split: list.splits)
qed

section \<open>Workflow tools are registered under their normalised names\<close>

lemma wf_toolName_workflowToVercelAITool:
  "wf_toolName (workflowToVercelAITool w) = toolName_of (ws_name w)"
  by (simp add: workflowToVercelAITool_def)

lemma distinct_workflowToVercelAITools: "distinct (map fst (workflowToVercelAITools ws))"
  by (simp add: workflowToVercelAITools_def distinct_fold_update_key)

text \<open>
  A key consists of upper-case letters, digits and hyphens, and neither starts nor ends
  with a hyphen.
\<close>

lemma set_hyphenate: "set (hyphenate s) \<subseteq> {c \<in> set s. \<not> is_ws c} \<union> {CHR ''-''}"
proof (induction s rule: hyphenate.induct)
  case 1
  then show ?case by simp
next
  case (2 c cs)
  show ?case
  proof (cases "is_ws c")
    case True
    with 2 have "set (hyphenate (dropWhile is_ws cs)) \<subseteq> {c \<in> set (dropWhile is_ws cs). \<not> is_ws c} \<union> {CHR ''-''}"
      by simp
    moreover have "set (dropWhile is_ws cs) \<subseteq> set cs"
      by (auto dest: set_dropWhileD)
    ultimately show ?thesis using True by auto
  next
    case False
    with 2 show ?thesis by auto
  qed
qed

lemma set_trim: "set (trim s) \<subseteq> set s"
  by (auto simp: trim_def dest!: set_dropWhileD)

lemma upper_char_alnum:
  "is_alnum c \<Longrightarrow> upper_char c \<in> set upper_letters \<union> set digit_chars"
  by (auto simp: is_alnum_def upper_char_def lower_letters_def upper_letters_def digit_chars_def)

lemma upper_char_hyphen: "upper_char CHR ''-'' = CHR ''-''"
  by (simp add: upper_char_def lower_letters_def upper_letters_def)

lemma alnum_not_ws: "is_alnum c \<Longrightarrow> \<not> is_ws c"
  by (auto simp: is_alnum_def is_ws_def lower_letters_def upper_letters_def digit_chars_def)

lemma upper_alnum_not_hyphen: "is_alnum c \<Longrightarrow> upper_char c \<noteq> CHR ''-''"
  using upper_char_alnum [of c]
  by (auto simp: upper_letters_def digit_chars_def)

lemma toolName_of_chars:
  "set (toolName_of name) \<subseteq> set upper_letters \<union> set digit_chars \<union> {CHR ''-''}"
proof
  fix x assume "x \<in> set (toolName_of name)"
  then obtain c where c: "c \<in> set (hyphenate (trim (remove_special name)))" and x: "x = upper_char c"
    by (auto simp: toolName_of_def toUpperCase_def)
  from c set_hyphenate have "c = CHR ''-'' \<or> (c \<in> set (trim (remove_special name)) \<and> \<not> is_ws c)"
    by blast
  then show "x \<in> set upper_letters \<union> set digit_chars \<union> {CHR ''-''}"
  proof
    assume "c = CHR ''-''"
    with x show ?thesis by (simp add: upper_char_hyphen)
  next
    assume a: "c \<in> set (trim (remove_special name)) \<and> \<not> is_ws c"
    with set_trim have "c \<in> set (remove_special name)" by blast
    with a have "is_alnum c" by (auto simp: remove_special_def)
    with x upper_char_alnum show ?thesis by blast
  qed
qed

lemma hyphenate_last:
  "s \<noteq> [] \<Longrightarrow> \<not> is_ws (last s) \<Longrightarrow> hyphenate s \<noteq> [] \<and> last (hyphenate s) = last s"
proof (induction s rule: hyphenate.induct)
  case 1
  then show ?case by simp
next
  case (2 c cs)
  show ?case
  proof (cases "is_ws c")
    case True
    with 2(3,4) have cs: "cs \<noteq> []" "\<not> is_ws (last cs)" by (auto split: if_splits)
    then have d: "dropWhile is_ws cs \<noteq> []"
      by (metis dropWhile_eq_Nil_conv last_in_set)
    then have l: "last (dropWhile is_ws cs) = last cs"
      by (metis append_Nil2 last_appendR takeWhile_dropWhile_id)
    from 2(1) [OF True d] l cs True show ?thesis by simp
  next
    case False
    show ?thesis
    proof (cases "cs = []")
      case True
      with False show ?thesis by simp
    next
      case ne: False
      with 2(4) have "\<not> is_ws (last cs)" by simp
      from 2(2) [OF False ne this] False ne show ?thesis by simp
    qed
  qed
qed

lemma trim_ends:
  assumes "trim s \<noteq> []"
  shows "\<not> is_ws (hd (trim s)) \<and> \<not> is_ws (last (trim s))"
proof -
  let ?r = "rev (dropWhile is_ws s)"
  let ?d = "dropWhile is_ws ?r"
  from assms have d: "?d \<noteq> []" by (simp add: trim_def)
  then have h: "\<not> is_ws (hd ?d)" by (rule hd_dropWhile)
  from d have "last (trim s) = hd ?d" by (simp add: trim_def last_rev)
  with h have l: "\<not> is_ws (last (trim s))" by simp
  from d have "?r \<noteq> []" by (cases ?r) simp_all
  then have ds: "dropWhile is_ws s \<noteq> []" by simp
  then have h0: "\<not> is_ws (hd (dropWhile is_ws s))" by (rule hd_dropWhile)
  have "dropWhile is_ws s = rev ?d @ rev (takeWhile is_ws ?r)"
    by (metis rev_append rev_rev_ident takeWhile_dropWhile_id)
  with d have "hd (dropWhile is_ws s) = hd (rev ?d)"
    by (metis Nil_is_rev_conv hd_append2)
  with h0 have "\<not> is_ws (hd (trim s))" by (simp add: trim_def)
  with l show ?thesis by simp
qed

lemma toolName_of_ends:
  assumes "toolName_of name \<noteq> []"
  shows "hd (toolName_of name) \<noteq> CHR ''-'' \<and> last (toolName_of name) \<noteq> CHR ''-''"
proof -
  let ?t = "trim (remove_special name)"
  from assms have t: "?t \<noteq> []" by (auto simp: toolName_of_def toUpperCase_def)
  from trim_ends [OF t] have e: "\<not> is_ws (hd ?t)" "\<not> is_ws (last ?t)" by simp_all
  have al: "c \<in> set ?t \<Longrightarrow> \<not> is_ws c \<Longrightarrow> is_alnum c" for c
    using set_trim [of "remove_special name"] by (auto simp: remove_special_def)
  from t e(1) have hh: "hd (hyphenate ?t) = hd ?t" by (cases ?t) auto
  from hyphenate_last [OF t e(2)] have hl: "hyphenate ?t \<noteq> []" "last (hyphenate ?t) = last ?t"
    by simp_all
  from t have "is_alnum (hd ?t)" "is_alnum (last ?t)" using al e by simp_all
  then have "upper_char (hd ?t) \<noteq> CHR ''-''" "upper_char (last ?t) \<noteq> CHR ''-''"
    by (simp_all add: upper_alnum_not_hyphen)
  with hh hl show ?thesis
    by (simp add: toolName_of_def toUpperCase_def hd_map last_map)
qed

text \<open>
  C10, as stated: the key is the name without its special characters, with hyphens for
  its whitespace runs, in upper case. The workflow named \<open>" a"\<close> is not registered under
  that key, \<open>"-A"\<close>: the source trims the name before it puts the hyphens in.
\<close>

theorem C10_key_is_trimmed_counterexample:
  "claimed_toolName '' a'' = ''-A'' \<and>
   map_of (workflowToVercelAITools [ex_workflow ''w1'' '' a'']) (claimed_toolName '' a'') = None \<and>
   map_of (workflowToVercelAITools [ex_workflow ''w1'' '' a'']) ''A''
     = Some (workflowToVercelAITool (ex_workflow ''w1'' '' a''))"
  by (simp add: workflowToVercelAITools_def workflowToVercelAITool_def ex_workflow_def
      claimed_toolName_def string_defs)

text \<open>
  C10, amended: the key of a workflow tool is its name with every character other than
  letters, digits and whitespace removed, then trimmed, then with every whitespace run
  replaced by a hyphen, in upper case (so it consists of upper-case letters, digits and
  hyphens); and the registry \<open>workflowToVercelAITools\<close> returns
  maps a key to the tool of the last workflow of the list with that key, so a later
  workflow replaces every earlier one whose name normalises to the same key.
\<close>

theorem C10_workflow_registry_keys:
  "toolName_of name = toUpperCase (hyphenate (trim (remove_special name))) \<and>
   set (toolName_of name) \<subseteq> set upper_letters \<union> set digit_chars \<union> {CHR ''-''} \<and>
   map_of (workflowToVercelAITools ws) k =
     (case filter (\<lambda>w. toolName_of (ws_name w) = k) ws of
        [] \<Rightarrow> None
      | f # fs \<Rightarrow> Some (workflowToVercelAITool (last (f # fs))))"
proof -
  have "filter (\<lambda>x. wf_toolName x = k) (map workflowToVercelAITool ws)
      = map workflowToVercelAITool (filter (\<lambda>w. toolName_of (ws_name w) = k) ws)"
    by (simp add: filter_map comp_def wf_toolName_workflowToVercelAITool)
  then have "map_of (workflowToVercelAITools ws) k =
     (case filter (\<lambda>w. toolName_of (ws_name w) = k) ws of
        [] \<Rightarrow> None
      | f # fs \<Rightarrow> Some (workflowToVercelAITool (last (f # fs))))"
    unfolding workflowToVercelAITools_def fold_update_last
    by (simp add: last_map split: list.splits)
  with toolName_of_chars [of name] show ?thesis
    by (simp add: toolName_of_def)
qed

section \<open>Mention-based filtering and the order of the mentions\<close>

lemma js_get_plain:
  "k \<notin> set object_prototype_names \<Longrightarrow>
     js_get ob k = (case map_of ob k of None \<Rightarrow> Missing | Some v \<Rightarrow> Own v)"
  by (simp add: js_get_def)

lemma js_get_Nil:
  "js_get [] k = (if k \<in> set object_prototype_names then Inherited else Missing)"
  by (simp add: js_get_def)

lemma filter_safe_total:
  "(\<And>x. x \<in> set xs \<Longrightarrow> p x = Inr (q x)) \<Longrightarrow> filter_safe p xs = Inr (filter q xs)"
  by (induction xs) simp_all

lemma included_step:
  assumes "plain_mention m"
  shows "\<exists>acc'. mentionsByServer_step tools m acc = Inr acc' \<and>
     (\<forall>sid n. n \<in> set (map (\<lambda>(k, t). mcp_originToolName t) tools) \<longrightarrow>
        (included acc' sid n \<longleftrightarrow>
           included acc sid n \<or> m = McpServerMention sid \<or> m = McpToolMention sid n))"
  using assms
  by (cases m) (auto simp: js_get_def included_def update_conv' split: option.splits)

lemma included_reduce:
  assumes "list_all plain_mention ms"
  shows "\<exists>acc'. reduce_safe (mentionsByServer_step tools) ms acc = Inr acc' \<and>
     (\<forall>sid n. n \<in> set (map (\<lambda>(k, t). mcp_originToolName t) tools) \<longrightarrow>
        (included acc' sid n \<longleftrightarrow>
           included acc sid n \<or> McpServerMention sid \<in> set ms \<or> McpToolMention sid n \<in> set ms))"
  using assms
proof (induction ms arbitrary: acc)
  case Nil
  then show ?case by simp
next
  case (Cons m ms)
  from Cons.prems have pm: "plain_mention m" and pms: "list_all plain_mention ms"
    by simp_all
  from included_step [OF pm, of tools acc] obtain acc1 where
    s: "mentionsByServer_step tools m acc = Inr acc1" and
    i: "\<And>sid n. n \<in> set (map (\<lambda>(k, t). mcp_originToolName t) tools) \<Longrightarrow>
          (included acc1 sid n \<longleftrightarrow>
             included acc sid n \<or> m = McpServerMention sid \<or> m = McpToolMention sid n)"
    by blast
  from Cons.IH [OF pms, of acc1] obtain acc2 where
    r: "reduce_safe (mentionsByServer_step tools) ms acc1 = Inr acc2" and
    j: "\<And>sid n. n \<in> set (map (\<lambda>(k, t). mcp_originToolName t) tools) \<Longrightarrow>
          (included acc2 sid n \<longleftrightarrow>
             included acc1 sid n \<or> McpServerMention sid \<in> set ms \<or> McpToolMention sid n \<in> set ms)"
    by blast
  have "reduce_safe (mentionsByServer_step tools) (m # ms) acc = Inr acc2"
    by (simp add: s r)
  moreover have "included acc2 sid n \<longleftrightarrow>
      included acc sid n \<or> McpServerMention sid \<in> set (m # ms) \<or> McpToolMention sid n \<in> set (m # ms)"
    if "n \<in> set (map (\<lambda>(k, t). mcp_originToolName t) tools)" for sid n
    using i [OF that, of sid] j [OF that, of sid] by auto
  ultimately show ?case
    by blast
qed

lemma included_mentionsByServer:
  assumes "list_all plain_mention ms"
  shows "\<exists>byServer. mentionsByServer tools ms = Inr byServer \<and>
     (\<forall>sid n. n \<in> set (map (\<lambda>(k, t). mcp_originToolName t) tools) \<longrightarrow>
        (included byServer sid n \<longleftrightarrow>
           McpServerMention sid \<in> set ms \<or> McpToolMention sid n \<in> set ms))"
proof -
  from assms have "list_all plain_mention (filter is_mcp_mention ms)"
    by (simp add: list_all_iff)
  from included_reduce [OF this, of tools "[]"] show ?thesis
    by (simp add: mentionsByServer_def included_def)
qed

text \<open>
  What the filter keeps when the server ids are plain: with mentions, the tools of a
  mentioned server and the tools mentioned by server and name. A server mention gives its
  server the names of all tools, of every server; on the tools of that server this is the
  same as all of its names.
\<close>

lemma filterMCPToolsByMentions_mentioned:
  assumes "plain_server_ids tools ms"
  shows "filterMCPToolsByMentions tools ms =
     Inr (if ms = [] then tools else filter (\<lambda>(k, t). mentioned ms t) tools)"
proof (cases "ms = []")
  case True
  then show ?thesis by (simp add: filterMCPToolsByMentions_def)
next
  case False
  from assms have pm: "list_all plain_mention ms"
    and pt: "\<And>e. e \<in> set tools \<Longrightarrow> mcp_serverId (snd e) \<notin> set object_prototype_names"
    by (simp_all add: plain_server_ids_def list_all_iff)
  from included_mentionsByServer [OF pm, of tools] obtain byServer where
    b: "mentionsByServer tools ms = Inr byServer" and
    i: "\<And>sid n. n \<in> set (map (\<lambda>(k, t). mcp_originToolName t) tools) \<Longrightarrow>
          (included byServer sid n \<longleftrightarrow>
             McpServerMention sid \<in> set ms \<or> McpToolMention sid n \<in> set ms)"
    by blast
  have "filter_safe (mentioned_in byServer) tools = Inr (filter (\<lambda>(k, t). mentioned ms t) tools)"
  proof (rule filter_safe_total)
    fix e assume e: "e \<in> set tools"
    obtain k t where kt: "e = (k, t)" by (cases e)
    from e kt have "mcp_originToolName t \<in> set (map (\<lambda>(k, t). mcp_originToolName t) tools)"
      by force
    from i [OF this, of "mcp_serverId t"] pt [OF e]
    show "mentioned_in byServer e = Inr (case e of (k, t) \<Rightarrow> mentioned ms t)"
      by (simp add: kt mentioned_in_def js_get_plain included_def mentioned_def split: option.splits)
  qed
  with False b show ?thesis
    by (simp add: filterMCPToolsByMentions_def)
qed

text \<open>
  On plain server ids the filter does not depend on the order of its inputs: on any
  permutation of the mention list it returns the very same entries in the same order, and
  if the entries of the tool set are enumerated in another order as well, it returns the
  same entries.
\<close>

lemma plain_server_ids_mset:
  assumes "mset ms' = mset ms" and "mset tools' = mset tools"
  shows "plain_server_ids tools' ms' = plain_server_ids tools ms"
proof -
  from assms have "set ms' = set ms" "set tools' = set tools"
    by (auto dest: mset_eq_setD)
  then show ?thesis
    by (simp add: plain_server_ids_def list_all_iff)
qed

lemma filterMCPToolsByMentions_plain_order:
  assumes "mset ms' = mset ms" and "mset tools' = mset tools" and "plain_server_ids tools ms"
  shows "filterMCPToolsByMentions tools ms' = filterMCPToolsByMentions tools ms"
    and "\<exists>kept kept'. filterMCPToolsByMentions tools ms = Inr kept \<and>
           filterMCPToolsByMentions tools' ms' = Inr kept' \<and> mset kept' = mset kept"
proof -
  from assms(1) have s: "set ms' = set ms" by (rule mset_eq_setD)
  from assms(1) have e: "ms' = [] \<longleftrightarrow> ms = []"
    by (metis mset_zero_iff)
  have m: "mentioned ms' = mentioned ms"
    by (simp add: mentioned_def fun_eq_iff s)
  from assms have p1: "plain_server_ids tools ms'" and p2: "plain_server_ids tools' ms'"
    using plain_server_ids_mset [OF assms(1) refl, of tools]
          plain_server_ids_mset [OF assms(1) assms(2)]
    by simp_all
  show "filterMCPToolsByMentions tools ms' = filterMCPToolsByMentions tools ms"
    by (simp add: filterMCPToolsByMentions_mentioned [OF p1]
        filterMCPToolsByMentions_mentioned [OF assms(3)] e m)
  show "\<exists>kept kept'. filterMCPToolsByMentions tools ms = Inr kept \<and>
           filterMCPToolsByMentions tools' ms' = Inr kept' \<and> mset kept' = mset kept"
    by (simp add: filterMCPToolsByMentions_mentioned [OF p2]
        filterMCPToolsByMentions_mentioned [OF assms(3)] e m assms(2))
qed

text \<open>
  C9: the filter gives the same result on every permutation of the mention list. With the
  tools of the example and the two mentions of a server whose id is \<open>constructor\<close>, it does
  not. When the \<open>mcpTool\<close> mention comes first, \<open>acc[mention.serverId]\<close> is the function every
  object inherits under that name, which is not nullish and not iterable, and the filter
  throws; when the \<open>mcpServer\<close> mention comes first, the id is a key of \<open>acc\<close> by then and the
  filter returns, with no tool, as no tool is of that server.
\<close>

theorem C9_mention_order_decides_throw:
  "mset [McpToolMention ''constructor'' ''search'', McpServerMention ''constructor'']
     = mset [McpServerMention ''constructor'', McpToolMention ''constructor'' ''search''] \<and>
   filterMCPToolsByMentions ex_mcp_tools
       [McpToolMention ''constructor'' ''search'', McpServerMention ''constructor'']
     = Inl (JsError ''TypeError'' ''acc[mention.serverId] is not iterable'') \<and>
   filterMCPToolsByMentions ex_mcp_tools
       [McpServerMention ''constructor'', McpToolMention ''constructor'' ''search'']
     = Inr []"
  by (simp add: filterMCPToolsByMentions_def mentionsByServer_def mentioned_in_def js_get_def
      object_prototype_names_def ex_mcp_tools_def ex_mcp_tool_def)

text \<open>
  The same happens in the test of a tool: a tool of a server \<open>toString\<close> that no mention
  names makes the filter throw, whatever the mentions are.
\<close>

lemma filterMCPToolsByMentions_inherited_server:
  "filterMCPToolsByMentions [(''search'', ex_mcp_tool ''toString'' ''search'')] [McpServerMention ''s1'']
     = Inl (JsError ''TypeError'' ''metionsByServer[_tool._mcpServerId].includes is not a function'')"
  by (simp add: filterMCPToolsByMentions_def mentionsByServer_def mentioned_in_def js_get_def
      object_prototype_names_def ex_mcp_tool_def)

section \<open>Properties of the registry\<close>

lemmas pipeline_defs = safe_map_def ifFail_def orElse_def unwrap_def errorIf_def

lemmas tool_example_defs = ex_env_def ex_mcp_tools_def ex_mcp_tool_def ex_tool_def ex_workflow_def

lemmas example_defs = tool_example_defs ex_request_def ex_message_def

lemma distinct_loadAppDefaultTools: "distinct (map fst (loadAppDefaultTools env ms al))"
  by (simp add: loadAppDefaultTools_def pipeline_defs distinct_fold_spread Let_def)

lemma distinct_loadWorkFlowTools: "distinct (map fst (loadWorkFlowTools env ms))"
  by (simp add: loadWorkFlowTools_def pipeline_defs distinct_workflowToVercelAITools
      split: sum.splits)

lemma fst_as_plain: "map fst (as_plain xs) = map fst xs"
  by (simp add: as_plain_def case_prod_unfold comp_def)

lemma fst_as_workflow: "map fst (as_workflow xs) = map fst xs"
  by (simp add: as_workflow_def case_prod_unfold comp_def)

lemma if_allowed_cases: "if_allowed env req xs = (if isToolCallAllowed env req then xs else [])"
  by (simp add: if_allowed_def pipeline_defs)

lemma distinct_if_allowed: "distinct (map fst xs) \<Longrightarrow> distinct (map fst (if_allowed env req xs))"
  by (simp add: if_allowed_cases)

lemma map_of_excludeToolExecution:
  "map_of (excludeToolExecution t) X = map_option without_execute (map_of t X)"
proof -
  have "excludeToolExecution t = map (\<lambda>(k, v). (k, without_execute v)) t"
    by (simp add: excludeToolExecution_def without_execute_def)
  then show ?thesis by (simp add: map_of_map)
qed

text \<open>
  The registry, name by name: the built-in tool if there is one, else the workflow tool,
  else the MCP tool, the latter two without executor in manual mode.
\<close>

lemma map_of_vercelAITooles:
  assumes "distinct (map fst WF)" and "distinct (map fst APP)"
  shows "map_of (vercelAITooles manual MCP WF APP) X =
     (case map_of APP X of
        Some t \<Rightarrow> Some t
      | None \<Rightarrow>
          (case (case map_of WF X of Some w \<Rightarrow> Some w | None \<Rightarrow> map_of MCP X) of
             None \<Rightarrow> None
           | Some v \<Rightarrow> Some (if manual then without_execute v else v)))"
  using assms
  by (simp add: vercelAITooles_def Let_def map_of_spread map_of_excludeToolExecution map_add_def
      split: option.splits)

lemma POST_execute_tools:
  assumes "POST_execute env req = Inr tt"
  shows "distinct (map fst (t_WORKFLOW_TOOLS tt))"
    and "distinct (map fst (t_APP_DEFAULT_TOOLS tt))"
    and "t_vercelAITooles tt = vercelAITooles (is_manual req) (t_MCP_TOOLS tt) (t_WORKFLOW_TOOLS tt)
           (t_APP_DEFAULT_TOOLS tt)"
  using assms
  by (auto simp: POST_execute_def Let_def fst_as_plain fst_as_workflow distinct_if_allowed
      distinct_loadAppDefaultTools distinct_loadWorkFlowTools split: sum.splits)

lemmas turn_defs = POST_execute_def Let_def if_allowed_cases isToolCallAllowed_def
   loadMcpTools_def loadWorkFlowTools_def loadAppDefaultTools_def pipeline_defs
   filterMCPToolsByAllowedMCPServers_def workflowToVercelAITools_def spread_def
   extractInProgressToolPart_def as_mcp_def as_workflow_def as_plain_def vercelAITooles_def
   is_manual_def excludeToolExecution_def js_get_def object_prototype_names_def

lemma ex_POST: "POST_execute ex_env ex_request = Inr ex_turn"
  by (simp add: turn_defs example_defs ex_turn_def)

text \<open>
  C4: a name \<open>X\<close> of a built-in toolkit tool is mapped to that tool by the registry handed to
  the model, whatever the MCP and the workflow tools hold under \<open>X\<close>.
\<close>

theorem C4_builtin_overrides:
  assumes "POST_execute env req = Inr tt"
      and "map_of (t_APP_DEFAULT_TOOLS tt) X = Some t"
  shows "map_of (t_vercelAITooles tt) X = Some t"
  using POST_execute_tools [OF assms(1)] assms(2)
  by (simp add: map_of_vercelAITooles)

theorem C4_builtin_overrides_witness:
  "POST_execute ex_env ex_request = Inr ex_turn \<and>
   map_of (t_MCP_TOOLS ex_turn) ''search'' = Some (McpTool (ex_mcp_tool ''s1'' ''search'')) \<and>
   map_of (t_APP_DEFAULT_TOOLS ex_turn) ''search'' = Some (PlainTool (ex_tool ''webSearch'')) \<and>
   map_of (t_vercelAITooles ex_turn) ''search'' = Some (PlainTool (ex_tool ''webSearch''))"
proof -
  have a: "map_of (t_APP_DEFAULT_TOOLS ex_turn) ''search'' = Some (PlainTool (ex_tool ''webSearch''))"
    by (simp add: ex_turn_def)
  from C4_builtin_overrides [OF ex_POST a] a ex_POST show ?thesis
    by (simp add: ex_turn_def)
qed

text \<open>
  C3, as stated: in manual mode every MCP tool appears in the registry without executor.
  The MCP tool \<open>search\<close> of the example turn does not: the registry maps its name to the
  built-in tool \<open>search\<close>, which has its executor.
\<close>

theorem C3_overridden_tool_counterexample:
  "is_manual ex_request \<and>
   POST_execute ex_env ex_request = Inr ex_turn \<and>
   map_of (t_MCP_TOOLS ex_turn) ''search'' = Some (McpTool (ex_mcp_tool ''s1'' ''search'')) \<and>
   map_of (t_vercelAITooles ex_turn) ''search'' = Some (PlainTool (ex_tool ''webSearch'')) \<and>
   execute (ex_tool ''webSearch'') = Some (AdapterExecute ''webSearch'')"
  by (simp add: ex_POST) (simp add: example_defs is_manual_def ex_turn_def)

text \<open>
  C3, amended: in manual mode the registry handed to the model maps every name of a
  built-in toolkit tool to that tool as it is, executor included, and every other name to
  what \<open>{...MCP_TOOLS, ...WORKFLOW_TOOLS}\<close> holds under it (the workflow tool if there is
  one, else the MCP tool) with the executor removed and only the description and the input
  schema retained.
\<close>

theorem C3_manual_registry:
  assumes "POST_execute env req = Inr tt" and "is_manual req"
  shows "map_of (t_vercelAITooles tt) X =
     (case map_of (t_APP_DEFAULT_TOOLS tt) X of
        Some t \<Rightarrow> Some t
      | None \<Rightarrow>
          (case map_of (t_WORKFLOW_TOOLS tt) X of
             Some w \<Rightarrow> Some (without_execute w)
           | None \<Rightarrow> map_option without_execute (map_of (t_MCP_TOOLS tt) X)))"
  using POST_execute_tools [OF assms(1)] assms(2)
  by (simp add: map_of_vercelAITooles split: option.splits)

theorem C3_manual_registry_witness:
  "is_manual ex_request \<and>
   POST_execute ex_env ex_request = Inr ex_turn \<and>
   map_of (t_vercelAITooles ex_turn) ''fetch''
     = Some (without_execute (McpTool (ex_mcp_tool ''s2'' ''fetch''))) \<and>
   map_of (t_vercelAITooles ex_turn) ''run'' = Some (PlainTool (ex_tool ''run''))"
proof -
  have m: "is_manual ex_request"
    by (simp add: is_manual_def ex_request_def)
  from C3_manual_registry [OF ex_POST m, of "''fetch''"]
       C3_manual_registry [OF ex_POST m, of "''run''"] m ex_POST
  show ?thesis
    by (simp add: ex_turn_def)
qed

lemma without_execute_fields:
  "without_execute v = PlainTool p \<Longrightarrow>
     execute p = None \<and> description p = description (base_tool v) \<and>
     inputSchema p = inputSchema (base_tool v)"
  by (auto simp: without_execute_def)

section \<open>A failing tool source\<close>

text \<open>
  Each of the three loading steps is isolated: a source that throws while it is loaded, or
  a turn in which tool calls are not allowed, gives the empty set, and the other sets are
  what they are without it.
\<close>

lemma loadMcpTools_failed: "loadMcpTools (Inl e) ms allowed = []"
  by (simp add: loadMcpTools_def pipeline_defs)

lemma loadWorkFlowTools_failed:
  "ms \<noteq> [] \<Longrightarrow> selectToolByIds env (List.map_filter workflow_mention_id ms) = Inl e \<Longrightarrow>
     loadWorkFlowTools env ms = []"
  by (simp add: loadWorkFlowTools_def pipeline_defs)

lemma POST_execute_isolates_load:
  assumes "POST_execute env req = Inr tt"
  shows "mcp_tools env 1 = Inl e \<Longrightarrow> t_MCP_TOOLS tt = []"
    and "mentions req \<noteq> [] \<Longrightarrow>
         selectToolByIds env (List.map_filter workflow_mention_id (mentions req)) = Inl e \<Longrightarrow>
         t_WORKFLOW_TOOLS tt = []"
    and "\<not> isToolCallAllowed env req \<Longrightarrow>
         t_MCP_TOOLS tt = [] \<and> t_WORKFLOW_TOOLS tt = [] \<and> t_APP_DEFAULT_TOOLS tt = []"
  using assms
  by (auto simp: POST_execute_def Let_def if_allowed_cases loadMcpTools_failed
      loadWorkFlowTools_failed as_mcp_def as_workflow_def as_plain_def split: sum.splits)

text \<open>
  The turn itself is not: before the loading steps \<open>execute\<close> awaits
  \<open>mcpClientsManager.getClients()\<close> and \<open>mcpClientsManager.tools()\<close> for a log line, outside
  every \<open>safe\<close> chain, and after them it reads the parts of the message. The turn proceeds
  exactly when these two calls and the reading return.
\<close>

lemma POST_execute_succeeds:
  "(\<exists>tt. POST_execute env req = Inr tt) \<longleftrightarrow>
     (\<exists>c. mcp_getClients env = Inr c) \<and> (\<exists>ts. mcp_tools env 0 = Inr ts) \<and>
     (\<exists>ps. extractInProgressToolPart (message req) = Inr ps)"
  by (auto simp: POST_execute_def Let_def split: sum.splits)

lemma extractInProgressToolPart_throws:
  "(\<exists>e. extractInProgressToolPart m = Inl e) \<longleftrightarrow>
     m_role m = ''assistant'' \<and> m_toolChoice m = Some ''manual'' \<and> m_parts m = None"
  by (auto simp: extractInProgressToolPart_def split: option.splits)

text \<open>
  C1: a tool source that throws leaves the tools of the other two sources in the registry
  and the turn proceeds. With an MCP client manager whose \<open>tools()\<close> throws, the turn of
  the example fails with the manager's error; no registry is composed.
\<close>

theorem C1_mcp_failure_fails_turn:
  "POST_execute down_env ex_request = Inl (JsError ''Error'' ''MCP manager is not available'')"
  by (simp add: POST_execute_def down_env_def ex_env_def)

section \<open>Mentions and allow-lists\<close>

lemma spread_Nil: "spread a [] = a"
  by (simp add: spread_def)

lemma keys_fold_update:
  "fst ` set (fold (\<lambda>(k, v). AList.update k v) b a) = fst ` set a \<union> fst ` set b"
proof (induction b arbitrary: a)
  case Nil
  then show ?case by simp
next
  case (Cons x b)
  obtain k v where x: "x = (k, v)" by (cases x)
  show ?case
    by (simp add: x Cons.IH dom_update)
qed

lemma keys_spread: "fst ` set (spread a b) = fst ` set a \<union> fst ` set b"
  by (simp add: spread_def keys_fold_update)

lemma set_update_subset: "set (AList.update k v al) \<subseteq> insert (k, v) (set al)"
  by (induction al) auto

lemma set_fold_update_subset:
  "set (fold (\<lambda>(k, v). AList.update k v) b a) \<subseteq> set a \<union> set b"
proof (induction b arbitrary: a)
  case Nil
  then show ?case by simp
next
  case (Cons x b)
  obtain k v where x: "x = (k, v)" by (cases x)
  have "set (fold (\<lambda>(k, v). AList.update k v) b (AList.update k v a))
          \<subseteq> set (AList.update k v a) \<union> set b"
    by (rule Cons.IH)
  with set_update_subset [of k v a] show ?case
    by (auto simp: x)
qed

lemma set_spread_subset: "set (spread a b) \<subseteq> set a \<union> set b"
  by (simp add: spread_def set_fold_update_subset)

lemma keys_fold_spread:
  "fst ` set (fold (\<lambda>x acc. spread acc (g x)) xs acc) = fst ` set acc \<union> (\<Union>x\<in>set xs. fst ` set (g x))"
  by (induction xs arbitrary: acc) (auto simp: keys_spread)

lemma set_fold_spread_subset:
  "set (fold (\<lambda>x acc. spread acc (g x)) xs acc) \<subseteq> set acc \<union> (\<Union>x\<in>set xs. set (g x))"
proof (induction xs arbitrary: acc)
  case Nil
  then show ?case by simp
next
  case (Cons x xs)
  have "set (fold (\<lambda>x acc. spread acc (g x)) xs (spread acc (g x)))
      \<subseteq> set (spread acc (g x)) \<union> (\<Union>x\<in>set xs. set (g x))"
    by (rule Cons.IH)
  with set_spread_subset [of acc "g x"] show ?case
    by auto
qed

lemma fold_spread_Nil: "fold (\<lambda>t acc. spread acc []) xs acc = acc"
  by (induction xs arbitrary: acc) (simp_all add: spread_Nil)

text \<open>Spreading an inherited value adds nothing, as spreading \<open>undefined\<close> does.\<close>

lemma js_get_toolkit:
  "(case js_get tools key of Own t \<Rightarrow> t | _ \<Rightarrow> []) = (case map_of tools key of None \<Rightarrow> [] | Some t \<Rightarrow> t)"
  by (simp add: js_get_def split: option.splits)

lemma loadAppDefaultTools_no_mentions:
  "loadAppDefaultTools env [] kit = fold (\<lambda>t acc. spread acc t) (allowed_toolkits env kit) []"
  by (simp add: loadAppDefaultTools_def pipeline_defs allowed_toolkits_def fold_map comp_def
      js_get_toolkit)

text \<open>
  Without a mention of an MCP tool or server nothing is under any server id, so the test
  of a tool says no or, on a server id that every object inherits, throws.
\<close>

lemma filter_safe_none:
  "(\<And>x. x \<in> set xs \<Longrightarrow> p x = Inr False \<or> (\<exists>e. p x = Inl e)) \<Longrightarrow>
     filter_safe p xs = Inr [] \<or> (\<exists>e. filter_safe p xs = Inl e)"
proof (induction xs)
  case Nil
  then show ?case by simp
next
  case (Cons x xs)
  from Cons.prems [of x] consider "p x = Inr False" | e where "p x = Inl e"
    by auto
  then show ?case
  proof cases
    case 1
    from Cons.IH Cons.prems have "filter_safe p xs = Inr [] \<or> (\<exists>e. filter_safe p xs = Inl e)"
      by simp
    with 1 show ?thesis by auto
  next
    case 2
    then show ?thesis by simp
  qed
qed

lemma filterMCPToolsByMentions_no_mcp_mention:
  assumes "ms \<noteq> []" and "filter is_mcp_mention ms = []"
  shows "orElse [] (filterMCPToolsByMentions tools ms) = []"
proof -
  have "filter_safe (mentioned_in []) tools = Inr [] \<or>
        (\<exists>e. filter_safe (mentioned_in []) tools = Inl e)"
    by (rule filter_safe_none) (simp add: mentioned_in_def js_get_Nil)
  with assms show ?thesis
    by (auto simp: filterMCPToolsByMentions_def mentionsByServer_def orElse_def)
qed

text \<open>
  C7, as stated: a source that no mention targets falls back to its allow-list, also when
  there are mentions of other categories. With the single mention of a workflow, the MCP
  source loads nothing although its allow-list allows the tool \<open>search\<close>, and the built-in
  source loads nothing although without mentions it loads all its tools.
\<close>

theorem C7_other_category_mention_counterexample:
  "filter is_mcp_mention [WorkflowMention ''w1''] = [] \<and>
   loadMcpTools (Inr ex_mcp_tools) [WorkflowMention ''w1''] (Some [(''s1'', [''search''])]) = [] \<and>
   filterMCPToolsByAllowedMCPServers ex_mcp_tools (Some [(''s1'', [''search''])])
     = [(''search'', ex_mcp_tool ''s1'' ''search'')] \<and>
   List.map_filter default_tool_mention_name [WorkflowMention ''w1''] = [] \<and>
   loadAppDefaultTools ex_env [WorkflowMention ''w1''] None = [] \<and>
   loadAppDefaultTools ex_env [] None
     = [(''search'', ex_tool ''webSearch''), (''run'', ex_tool ''run'')]"
  by (simp add: loadMcpTools_def loadAppDefaultTools_def pipeline_defs filterMCPToolsByMentions_def
      mentionsByServer_def mentioned_in_def filterMCPToolsByAllowedMCPServers_def js_get_def
      object_prototype_names_def tool_example_defs List.map_filter_simps spread_def)

text \<open>
  C7, amended: when the mention set of the turn is empty, the MCP source loads what its
  allow-list allows, the built-in source loads the tools of the toolkits of its allow-list
  (of all toolkits when no allow-list is configured), and the workflow source, which has
  no allow-list, loads nothing. When the mention set is not empty, no allow-list is
  consulted: a source that no mention targets loads no tool (for the workflow source:
  what the repository answers for no ids).
\<close>

theorem C7_allow_lists_only_without_mentions:
  "loadMcpTools (Inr tools) [] allowed = filterMCPToolsByAllowedMCPServers tools allowed \<and>
   fst ` set (loadAppDefaultTools env [] kit) = (\<Union>t\<in>set (allowed_toolkits env kit). fst ` set t) \<and>
   set (loadAppDefaultTools env [] kit) \<subseteq> (\<Union>t\<in>set (allowed_toolkits env kit). set t) \<and>
   loadWorkFlowTools env [] = [] \<and>
   (ms \<noteq> [] \<longrightarrow> filter is_mcp_mention ms = [] \<longrightarrow> loadMcpTools answer ms allowed = []) \<and>
   (ms \<noteq> [] \<longrightarrow> List.map_filter default_tool_mention_name ms = [] \<longrightarrow>
      loadAppDefaultTools env ms kit = []) \<and>
   (ms \<noteq> [] \<longrightarrow> List.map_filter workflow_mention_id ms = [] \<longrightarrow>
      loadWorkFlowTools env ms =
        (case selectToolByIds env [] of Inl e \<Rightarrow> [] | Inr ws \<Rightarrow> workflowToVercelAITools ws))"
proof -
  have a: "loadMcpTools (Inr tools) [] allowed = filterMCPToolsByAllowedMCPServers tools allowed"
    by (simp add: loadMcpTools_def pipeline_defs)
  have b: "fst ` set (loadAppDefaultTools env [] kit) = (\<Union>t\<in>set (allowed_toolkits env kit). fst ` set t)"
    by (simp add: loadAppDefaultTools_no_mentions keys_fold_spread)
  have c: "set (loadAppDefaultTools env [] kit) \<subseteq> (\<Union>t\<in>set (allowed_toolkits env kit). set t)"
    using set_fold_spread_subset [of "\<lambda>t. t" "allowed_toolkits env kit" "[]"]
    by (simp add: loadAppDefaultTools_no_mentions)
  have d: "loadWorkFlowTools env [] = []"
    by (simp add: loadWorkFlowTools_def pipeline_defs workflowToVercelAITools_def)
  have e: "loadMcpTools answer ms allowed = []" if "ms \<noteq> []" "filter is_mcp_mention ms = []"
  proof (cases answer)
    case (Inl err)
    then show ?thesis
      by (simp add: loadMcpTools_def pipeline_defs)
  next
    case (Inr tools)
    with that(1) filterMCPToolsByMentions_no_mcp_mention [OF that, of tools] show ?thesis
      by (simp add: loadMcpTools_def safe_map_def)
  qed
  have f: "loadAppDefaultTools env ms kit = []"
    if "ms \<noteq> []" "List.map_filter default_tool_mention_name ms = []"
    using that
    by (simp add: loadAppDefaultTools_def pipeline_defs fold_spread_Nil)
  have g: "loadWorkFlowTools env ms =
        (case selectToolByIds env [] of Inl e \<Rightarrow> [] | Inr ws \<Rightarrow> workflowToVercelAITools ws)"
    if "ms \<noteq> []" "List.map_filter workflow_mention_id ms = []"
    using that
    by (simp add: loadWorkFlowTools_def pipeline_defs split: sum.splits)
  from a b c d e f g show ?thesis
    by blast
qed

theorem C7_allow_lists_only_without_mentions_witness:
  "[AgentMention ''a1''] \<noteq> [] \<and>
   filter is_mcp_mention [AgentMention ''a1''] = [] \<and>
   List.map_filter default_tool_mention_name [AgentMention ''a1''] = [] \<and>
   loadMcpTools (Inr ex_mcp_tools) [AgentMention ''a1''] (Some [(''s2'', [''fetch''])]) = [] \<and>
   loadAppDefaultTools ex_env [AgentMention ''a1''] (Some [''code'']) = [] \<and>
   loadMcpTools (Inr ex_mcp_tools) [] (Some [(''s2'', [''fetch''])])
     = [(''fetch'', ex_mcp_tool ''s2'' ''fetch'')] \<and>
   fst ` set (loadAppDefaultTools ex_env [] (Some [''code''])) = {''run''}"
proof -
  have h1: "[AgentMention ''a1''] \<noteq> []"
    by simp
  have h2: "filter is_mcp_mention [AgentMention ''a1''] = []"
    by simp
  have h3: "List.map_filter default_tool_mention_name [AgentMention ''a1''] = []"
    by (simp add: List.map_filter_simps)
  have v: "filterMCPToolsByAllowedMCPServers ex_mcp_tools (Some [(''s2'', [''fetch''])])
      = [(''fetch'', ex_mcp_tool ''s2'' ''fetch'')]"
    by (simp add: filterMCPToolsByAllowedMCPServers_def tool_example_defs js_get_def)
  have k: "(\<Union>t\<in>set (allowed_toolkits ex_env (Some [''code''])). fst ` set t) = {''run''}"
    by (simp add: allowed_toolkits_def tool_example_defs)
  from C7_allow_lists_only_without_mentions
         [of ex_mcp_tools "Some [(''s2'', [''fetch''])]" ex_env "Some [''code'']"
             "[AgentMention ''a1'']" "Inr ex_mcp_tools"]
       h1 h2 h3 v k
  show ?thesis
    by simp
qed

section \<open>Properties of manual confirmation\<close>

lemma getToolName_eq: "getToolName part = p_toolName part"
  by (simp add: getToolName_def)

lemma js_get_Missing:
  "js_get ob k = Missing \<longleftrightarrow> map_of ob k = None \<and> k \<notin> set object_prototype_names"
  by (simp add: js_get_def split: option.splits)

lemma js_get_Own: "js_get ob k = Own v \<longleftrightarrow> map_of ob k = Some v"
  by (simp add: js_get_def split: option.splits)

lemma js_get_Inherited:
  "js_get ob k = Inherited \<longleftrightarrow> map_of ob k = None \<and> k \<in> set object_prototype_names"
  by (simp add: js_get_def split: option.splits)

lemma manual_never_throws:
  "\<exists>v. fst (manualToolExecuteByLastMessage env part tools) = Inr v"
  by (auto simp: manualToolExecuteByLastMessage_def Let_def pipeline_defs
      split: lookup.splits tool_output.splits sum.splits prod.splits)

lemma manual_rejected:
  assumes "p_output part = ManualToolConfirm False" and "js_get tools (getToolName part) \<noteq> Missing"
  shows "manualToolExecuteByLastMessage env part tools
       = (Inr (OutputValue (JStr (MANUAL_REJECT_RESPONSE_PROMPT env))), [])"
  using assms
  by (simp add: manualToolExecuteByLastMessage_def Let_def pipeline_defs split: lookup.splits)

lemma manual_rejected_no_call:
  assumes "p_output part = ManualToolConfirm False"
  shows "snd (manualToolExecuteByLastMessage env part tools) = []"
  using assms
  by (simp add: manualToolExecuteByLastMessage_def Let_def pipeline_defs split: lookup.splits)

lemma manual_tool_not_found:
  assumes "js_get tools (getToolName part) = Missing"
  shows "manualToolExecuteByLastMessage env part tools
       = (Inr (tool_call_fail env (getToolName part)
                 (JsError ''Error'' (''tool not found: '' @ getToolName part))), [])"
  using assms
  by (simp add: manualToolExecuteByLastMessage_def Let_def pipeline_defs)

lemma manual_confirm_missing:
  assumes "js_get tools (getToolName part) \<noteq> Missing" and "\<not> is_manual_confirm (p_output part)"
  shows "manualToolExecuteByLastMessage env part tools
       = (Inr (tool_call_fail env (getToolName part)
                 (JsError ''Error'' ''manual tool confirm not found'')), [])"
  using assms
  by (cases "p_output part")
     (simp_all add: manualToolExecuteByLastMessage_def Let_def pipeline_defs split: lookup.splits)

text \<open>A confirmed call of a tool of the registry invokes one executor, that of the tool.\<close>

lemma manual_confirmed_invokes:
  assumes "p_output part = ManualToolConfirm True" and "map_of tools (getToolName part) = Some t"
  shows "snd (manualToolExecuteByLastMessage env part tools) =
     (case t of
        McpTool m \<Rightarrow> [McpToolCall (mcp_serverId m) (mcp_originToolName m) (p_input part)]
      | WorkflowTool w \<Rightarrow>
          (case execute w of None \<Rightarrow> [] | Some e \<Rightarrow> [ExecuteCall e (p_input part) (p_toolCallId part)])
      | PlainTool p \<Rightarrow>
          (case execute p of None \<Rightarrow> [] | Some e \<Rightarrow> [ExecuteCall e (p_input part) (p_toolCallId part)]))"
proof -
  from assms(2) have "js_get tools (getToolName part) = Own t"
    by (simp add: js_get_Own)
  with assms(1) show ?thesis
    by (simp add: manualToolExecuteByLastMessage_def Let_def pipeline_defs call_execute_def
        split: registry_tool.splits option.splits)
qed

text \<open>
  A name that is not in the registry and that every object inherits, such as \<open>toString\<close>,
  is not reported as not found: \<open>tools[toolName]\<close> is the inherited value. A rejected call
  under such a name gets the rejection notice, a confirmed one the error record of the
  failed call of \<open>tool.execute\<close>, and no executor is invoked.
\<close>

lemma manual_inherited_name:
  assumes "map_of tools (getToolName part) = None"
      and "getToolName part \<in> set object_prototype_names"
      and "p_output part = ManualToolConfirm confirm"
  shows "manualToolExecuteByLastMessage env part tools =
     (if confirm
      then (Inr (tool_call_fail env (getToolName part)
                   (JsError ''TypeError'' ''tool.execute is not a function'')), [])
      else (Inr (OutputValue (JStr (MANUAL_REJECT_RESPONSE_PROMPT env))), []))"
proof -
  from assms(1,2) have "js_get tools (getToolName part) = Inherited"
    by (simp add: js_get_Inherited)
  with assms(3) show ?thesis
    by (simp add: manualToolExecuteByLastMessage_def Let_def pipeline_defs call_execute_def)
qed

lemma manual_inherited_name_example:
  "manualToolExecuteByLastMessage ex_env (ex_part True ''toString'') (t_APP_DEFAULT_TOOLS ex_turn)
     = (Inr (OutputValue (JObj [(''isError'', JBool True),
                                (''statusMessage'', JStr ''tool call fail: toString''),
                                (''error'', JStr ''tool.execute is not a function'')])), [])"
  by (simp add: manualToolExecuteByLastMessage_def Let_def pipeline_defs getToolName_def
      ex_part_def ex_turn_def ex_env_def tool_call_fail_def js_get_def object_prototype_names_def
      call_execute_def)

text \<open>
  C2, as stated: a call whose confirmation says \<open>confirm = false\<close> gets the rejection notice
  as its output. A rejected call of a tool that is no longer in the registry does not: the
  lookup of the tool comes first, and the output is the error record \<open>tool not found\<close>.
\<close>

theorem C2_rejected_missing_tool_counterexample:
  "p_output (ex_part False ''gone'') = ManualToolConfirm False \<and>
   map_of (t_APP_DEFAULT_TOOLS ex_turn) (getToolName (ex_part False ''gone'')) = None \<and>
   manualToolExecuteByLastMessage ex_env (ex_part False ''gone'') (t_APP_DEFAULT_TOOLS ex_turn)
     = (Inr (OutputValue (JObj [(''isError'', JBool True),
                                (''statusMessage'', JStr ''tool call fail: gone''),
                                (''error'', JStr ''tool not found: gone'')])), []) \<and>
   OutputValue (JObj [(''isError'', JBool True),
                      (''statusMessage'', JStr ''tool call fail: gone''),
                      (''error'', JStr ''tool not found: gone'')])
     \<noteq> OutputValue (JStr (MANUAL_REJECT_RESPONSE_PROMPT ex_env))"
  by (simp add: manualToolExecuteByLastMessage_def Let_def pipeline_defs getToolName_def
      ex_part_def ex_turn_def ex_env_def tool_call_fail_def js_get_def object_prototype_names_def)

text \<open>
  C2, amended. For every tool part and registry, \<open>manualToolExecuteByLastMessage\<close> returns
  and does not throw. If the confirmation says \<open>confirm = false\<close>, no executor is invoked,
  and if the tool name is in the registry the output is the fixed rejection notice. If the
  tool name is absent from the registry and is not a name that every object inherits
  (whatever the confirmation says), no executor is invoked and the output is the error
  record \<open>{isError: true, statusMessage: "tool call fail: NAME", error}\<close> whose error text
  says \<open>tool not found: NAME\<close>. If the tool name is in the registry and the confirmation is
  missing, no executor is invoked and the output is that record with the error text
  \<open>manual tool confirm not found\<close>.
\<close>

theorem C2_manual_confirmation:
  "(\<exists>v. fst (manualToolExecuteByLastMessage env part tools) = Inr v) \<and>
   (p_output part = ManualToolConfirm False \<longrightarrow>
      snd (manualToolExecuteByLastMessage env part tools) = []) \<and>
   (p_output part = ManualToolConfirm False \<longrightarrow> map_of tools (getToolName part) \<noteq> None \<longrightarrow>
      fst (manualToolExecuteByLastMessage env part tools)
        = Inr (OutputValue (JStr (MANUAL_REJECT_RESPONSE_PROMPT env)))) \<and>
   (map_of tools (getToolName part) = None \<longrightarrow>
    getToolName part \<notin> set object_prototype_names \<longrightarrow>
      manualToolExecuteByLastMessage env part tools
        = (Inr (OutputValue (JObj
             [(''isError'', JBool True),
              (''statusMessage'', JStr (''tool call fail: '' @ getToolName part)),
              (''error'', JStr (errorToString env
                 (Some (JsError ''Error'' (''tool not found: '' @ getToolName part)))))])), [])) \<and>
   (map_of tools (getToolName part) \<noteq> None \<longrightarrow> \<not> is_manual_confirm (p_output part) \<longrightarrow>
      manualToolExecuteByLastMessage env part tools
        = (Inr (OutputValue (JObj
             [(''isError'', JBool True),
              (''statusMessage'', JStr (''tool call fail: '' @ getToolName part)),
              (''error'', JStr (errorToString env
                 (Some (JsError ''Error'' ''manual tool confirm not found''))))])), []))"
proof -
  have o: "js_get tools (getToolName part) \<noteq> Missing" if "map_of tools (getToolName part) \<noteq> None"
    using that by (simp add: js_get_Missing)
  have m: "js_get tools (getToolName part) = Missing"
    if "map_of tools (getToolName part) = None" "getToolName part \<notin> set object_prototype_names"
    using that by (simp add: js_get_Missing)
  show ?thesis
    using manual_never_throws [of env part tools] manual_rejected_no_call [of part env tools]
      manual_rejected [of part tools env] manual_tool_not_found [of tools part env]
      manual_confirm_missing [of tools part env] o m
    by (auto simp: tool_call_fail_def)
qed

theorem C2_manual_confirmation_witness:
  "p_output (ex_part False ''search'') = ManualToolConfirm False \<and>
   map_of (t_APP_DEFAULT_TOOLS ex_turn) (getToolName (ex_part False ''search'')) \<noteq> None \<and>
   manualToolExecuteByLastMessage ex_env (ex_part False ''search'') (t_APP_DEFAULT_TOOLS ex_turn)
     = (Inr (OutputValue (JStr ''The user rejected the tool call.'')), []) \<and>
   map_of (t_APP_DEFAULT_TOOLS ex_turn) (getToolName (ex_part True ''gone'')) = None \<and>
   getToolName (ex_part True ''gone'') \<notin> set object_prototype_names \<and>
   manualToolExecuteByLastMessage ex_env (ex_part True ''gone'') (t_APP_DEFAULT_TOOLS ex_turn)
     = (Inr (OutputValue (JObj [(''isError'', JBool True),
                                (''statusMessage'', JStr ''tool call fail: gone''),
                                (''error'', JStr ''tool not found: gone'')])), []) \<and>
   \<not> is_manual_confirm (p_output ((ex_part True ''run'')\<lparr>p_output := OutputValue JUndefined\<rparr>)) \<and>
   manualToolExecuteByLastMessage ex_env ((ex_part True ''run'')\<lparr>p_output := OutputValue JUndefined\<rparr>)
       (t_APP_DEFAULT_TOOLS ex_turn)
     = (Inr (OutputValue (JObj [(''isError'', JBool True),
                                (''statusMessage'', JStr ''tool call fail: run''),
                                (''error'', JStr ''manual tool confirm not found'')])), [])"
proof -
  let ?reg = "t_APP_DEFAULT_TOOLS ex_turn"
  let ?p1 = "ex_part False ''search''"
  let ?p2 = "ex_part True ''gone''"
  let ?p3 = "(ex_part True ''run'')\<lparr>p_output := OutputValue JUndefined\<rparr>"
  have n: "getToolName ?p1 = ''search''" "getToolName ?p2 = ''gone''" "getToolName ?p3 = ''run''"
    by (simp_all add: getToolName_def ex_part_def)
  have r1: "map_of ?reg (getToolName ?p1) \<noteq> None"
    and r2: "map_of ?reg (getToolName ?p2) = None"
    and r3: "map_of ?reg (getToolName ?p3) \<noteq> None"
    unfolding n by (simp_all add: ex_turn_def)
  have r2': "getToolName ?p2 \<notin> set object_prototype_names"
    unfolding n by (simp add: object_prototype_names_def)
  have e: "errorToString ex_env (Some (JsError a b)) = b" for a b
    by (simp add: ex_env_def)
  have m: "MANUAL_REJECT_RESPONSE_PROMPT ex_env = ''The user rejected the tool call.''"
    by (simp add: ex_env_def)
  have o1: "p_output ?p1 = ManualToolConfirm False"
    by (simp add: ex_part_def)
  have o3: "\<not> is_manual_confirm (p_output ?p3)"
    by simp
  note T1 = C2_manual_confirmation [of ex_env ?p1 ?reg]
  note T2 = C2_manual_confirmation [of ex_env ?p2 ?reg]
  note T3 = C2_manual_confirmation [of ex_env ?p3 ?reg]
  from T1 o1 have "snd (manualToolExecuteByLastMessage ex_env ?p1 ?reg) = []"
    by blast
  moreover from T1 o1 r1 have "fst (manualToolExecuteByLastMessage ex_env ?p1 ?reg)
      = Inr (OutputValue (JStr (MANUAL_REJECT_RESPONSE_PROMPT ex_env)))"
    by blast
  ultimately have c1: "manualToolExecuteByLastMessage ex_env ?p1 ?reg
     = (Inr (OutputValue (JStr ''The user rejected the tool call.'')), [])"
    by (simp add: prod_eq_iff m)
  from T2 r2 r2' have c2: "manualToolExecuteByLastMessage ex_env ?p2 ?reg
     = (Inr (OutputValue (JObj [(''isError'', JBool True),
                                (''statusMessage'', JStr ''tool call fail: gone''),
                                (''error'', JStr ''tool not found: gone'')])), [])"
    by (simp add: n e)
  from T3 r3 o3 have "manualToolExecuteByLastMessage ex_env ?p3 ?reg
        = (Inr (OutputValue (JObj
             [(''isError'', JBool True),
              (''statusMessage'', JStr (''tool call fail: '' @ getToolName ?p3)),
              (''error'', JStr (errorToString ex_env
                 (Some (JsError ''Error'' ''manual tool confirm not found''))))])), [])"
    by blast
  then have c3: "manualToolExecuteByLastMessage ex_env ?p3 ?reg
     = (Inr (OutputValue (JObj [(''isError'', JBool True),
                                (''statusMessage'', JStr ''tool call fail: run''),
                                (''error'', JStr ''manual tool confirm not found'')])), [])"
    by (simp add: n e)
  from o1 r1 c1 r2 r2' c2 o3 c3 show ?thesis
    by blast
qed

section \<open>The workflow tool resolves to a structured result\<close>

text \<open>The outcome of \<open>execute\<close>, by what the repository and the engine did.\<close>

lemma workflow_execute_cases:
  "workflow_execute env wid name query tcid =
     (case selectStructureById env wid of
        Inl e \<Rightarrow> Inr (WorkflowFailure (or_default (err_name e) ''ERROR'') (errorToString env (Some e)) [])
      | Inr None \<Rightarrow>
          Inr (WorkflowFailure ''Error''
                 (errorToString env (Some (JsError ''Error'' ''Not Found Workflow''))) [])
      | Inr (Some flow) \<Rightarrow>
          (let run = engine_run env flow (nullish_or query (JObj []));
               history = run_history env flow (fst run)
           in case snd run of
                Inl e \<Rightarrow> Inr (WorkflowFailure (or_default (err_name e) ''ERROR'')
                                (errorToString env (Some e)) history)
              | Inr res \<Rightarrow>
                  Inr (WorkflowStreamingResult
                    (finish_run env
                       \<lparr>tr_toolCallId = tcid, tr_workflowName = name, tr_workflowIcon = wf_icon flow,
                        tr_startedAt = date_now env 0, tr_endedAt = date_now env 1, tr_history = [],
                        tr_result = JUndefined, tr_status = Running, tr_error = None\<rparr>
                       history res))))"
proof -
  have d: "or_default ''Error'' ''ERROR'' = ''Error''"
    by (simp add: or_default_def)
  show ?thesis
    by (simp add: workflow_execute_def Let_def pipeline_defs d split: sum.splits option.splits)
qed

text \<open>
  C5: \<open>execute\<close> of a workflow tool returns, for every input and every behaviour of the
  repository and the engine, and what it returns is the tagged result of the workflow or
  the object \<open>{error: {name, message, history}}\<close>. It is the latter when the id resolves to
  no stored workflow and when the engine throws; a run that resolves, with \<open>isOk\<close> or
  without, gives the tagged result with the status and the error of the run.
\<close>

theorem C5_workflow_execute_never_throws:
  "(\<exists>v. workflow_execute env wid name query tcid = Inr v \<and> is_structured v) \<and>
   (selectStructureById env wid = Inr None \<longrightarrow>
      workflow_execute env wid name query tcid
        = Inr (WorkflowFailure ''Error''
                 (errorToString env (Some (JsError ''Error'' ''Not Found Workflow''))) [])) \<and>
   (\<forall>flow e. selectStructureById env wid = Inr (Some flow) \<longrightarrow>
      snd (engine_run env flow (nullish_or query (JObj []))) = Inl e \<longrightarrow>
      workflow_execute env wid name query tcid
        = Inr (WorkflowFailure (or_default (err_name e) ''ERROR'') (errorToString env (Some e))
                 (run_history env flow (fst (engine_run env flow (nullish_or query (JObj []))))))) \<and>
   (\<forall>flow res. selectStructureById env wid = Inr (Some flow) \<longrightarrow>
      snd (engine_run env flow (nullish_or query (JObj []))) = Inr res \<longrightarrow>
      (\<exists>r. workflow_execute env wid name query tcid = Inr (WorkflowStreamingResult r) \<and>
           tr_status r = (if r_isOk res then Success else Fail) \<and>
           (r_error res \<noteq> None \<longrightarrow> tr_error r \<noteq> None)))"
  by (auto simp: workflow_execute_cases Let_def finish_run_def split: sum.splits option.splits)

lemmas workflow_example_defs = ex_wf_env_def ex_env_def ex_flow_def ex_events_def

theorem C5_workflow_execute_never_throws_witness:
  "selectStructureById ex_wf_env ''w9'' = Inr None \<and>
   workflow_execute ex_wf_env ''w9'' ''Demo'' JUndefined ''call-1''
     = Inr (WorkflowFailure ''Error'' ''Not Found Workflow'' []) \<and>
   selectStructureById ex_failing_wf_env ''w1'' = Inr (Some ex_flow) \<and>
   snd (engine_run ex_failing_wf_env ex_flow (JObj [])) = Inl (JsError [] ''engine stopped'') \<and>
   workflow_execute ex_failing_wf_env ''w1'' ''Demo'' JUndefined ''call-1''
     = Inr (WorkflowFailure ''ERROR'' ''engine stopped''
         [\<lparr>h_id = ''e1'', h_name = ''Start'', h_status = Success, h_startedAt = 10,
           h_kind = ''input'',
           h_result = Some \<lparr>nr_input = JObj [], nr_output = JObj [(''q'', JStr ''x'')]\<rparr>,
           h_error = None, h_endedAt = Some 11\<rparr>])"
proof -
  have q: "nullish_or JUndefined (JObj []) = JObj []"
    by (simp add: nullish_or_def)
  have a: "selectStructureById ex_wf_env ''w9'' = Inr None"
    by (simp add: workflow_example_defs ex_failing_wf_env_def)
  have b: "selectStructureById ex_failing_wf_env ''w1'' = Inr (Some ex_flow)"
    by (simp add: ex_wf_env_def ex_failing_wf_env_def)
  have c: "snd (engine_run ex_failing_wf_env ex_flow (JObj [])) = Inl (JsError [] ''engine stopped'')"
    by (simp add: ex_failing_wf_env_def)
  have h: "run_history ex_failing_wf_env ex_flow (fst (engine_run ex_failing_wf_env ex_flow (JObj [])))
     = [\<lparr>h_id = ''e1'', h_name = ''Start'', h_status = Success, h_startedAt = 10,
           h_kind = ''input'',
           h_result = Some \<lparr>nr_input = JObj [], nr_output = JObj [(''q'', JStr ''x'')]\<rparr>,
           h_error = None, h_endedAt = Some 11\<rparr>]"
    by (simp add: run_history_def workflow_example_defs ex_failing_wf_env_def Let_def)
  have e: "errorToString ex_wf_env (Some (JsError n m)) = m"
          "errorToString ex_failing_wf_env (Some (JsError n m)) = m" for n m
    by (simp_all add: workflow_example_defs ex_failing_wf_env_def)
  from C5_workflow_execute_never_throws [of ex_wf_env "''w9''" "''Demo''" JUndefined "''call-1''"] a
  have r1: "workflow_execute ex_wf_env ''w9'' ''Demo'' JUndefined ''call-1''
     = Inr (WorkflowFailure ''Error'' ''Not Found Workflow'' [])"
    by (simp add: e)
  from C5_workflow_execute_never_throws
         [of ex_failing_wf_env "''w1''" "''Demo''" JUndefined "''call-1''"] b c
  have "workflow_execute ex_failing_wf_env ''w1'' ''Demo'' JUndefined ''call-1''
        = Inr (WorkflowFailure (or_default (err_name (JsError [] ''engine stopped'')) ''ERROR'')
                 (errorToString ex_failing_wf_env (Some (JsError [] ''engine stopped'')))
                 (run_history ex_failing_wf_env ex_flow
                    (fst (engine_run ex_failing_wf_env ex_flow (nullish_or JUndefined (JObj []))))))"
    unfolding q by blast
  then have r2: "workflow_execute ex_failing_wf_env ''w1'' ''Demo'' JUndefined ''call-1''
     = Inr (WorkflowFailure ''ERROR'' ''engine stopped''
         [\<lparr>h_id = ''e1'', h_name = ''Start'', h_status = Success, h_startedAt = 10,
           h_kind = ''input'',
           h_result = Some \<lparr>nr_input = JObj [], nr_output = JObj [(''q'', JStr ''x'')]\<rparr>,
           h_error = None, h_endedAt = Some 11\<rparr>])"
    by (simp add: q h e or_default_def)
  from a r1 b c r2 show ?thesis
    by blast
qed

section \<open>The history and the result of a completed workflow call\<close>

lemma outputNodeResults_eq: "outputNodeResults env history = truthy_values env history"
  by (induction history)
     (auto simp: outputNodeResults_def truthy_values_def produced_values_def List.map_filter_simps
        split: option.splits)

lemma with_payload_stripped: "with_payload (map (\<lambda>h. h\<lparr>h_result := None\<rparr>) history) = []"
  by (simp add: with_payload_def filter_empty_conv)

lemma length_one_case:
  "(if length outs = 1 then outs ! 0 else JArr outs) = (case outs of [v] \<Rightarrow> v | vs \<Rightarrow> JArr vs)"
  by (cases outs) (auto split: list.splits)

lemma convertToSavePart_workflow_result:
  assumes "take 6 (p_state t) = ''output''" and "p_output t = WorkflowStreamingResult r"
  shows "convertToSavePart (ToolUIPart t) =
     Inr (ToolUIPart (t\<lparr>p_output := WorkflowStreamingResult
            (r\<lparr>tr_history := map (\<lambda>h. h\<lparr>h_result := None\<rparr>) (tr_history r)\<rparr>),
          p_providerMetadata := JUndefined, p_callProviderMetadata := JUndefined\<rparr>))"
  using assms
  by (simp add: convertToSavePart_def pipeline_defs exclude_metadata_def isToolUIPart_def)

text \<open>
  A tool part whose output is not the tagged result is saved with its output as it is;
  so is the object a failed workflow call returns, with the history in it.
\<close>

lemma convertToSavePart_workflow_failure:
  assumes "p_output t = WorkflowFailure n m history"
  shows "convertToSavePart (ToolUIPart t) =
     Inr (ToolUIPart (t\<lparr>p_providerMetadata := JUndefined, p_callProviderMetadata := JUndefined\<rparr>))"
  using assms
  by (simp add: convertToSavePart_def pipeline_defs exclude_metadata_def isToolUIPart_def)

lemma ex_run_history: "run_history ex_wf_env ex_flow ex_events = ex_full_history"
  by (simp add: run_history_def workflow_example_defs ex_full_history_def Let_def)

lemma ex_zero_run_history: "run_history ex_zero_wf_env ex_flow ex_zero_events = ex_zero_history"
  by (simp add: run_history_def workflow_example_defs ex_zero_wf_env_def ex_zero_events_def
      ex_zero_history_def Let_def)

lemma ex_failed_run_history:
  "run_history ex_failing_wf_env ex_flow (take 3 ex_events) = ex_failed_history"
  by (simp add: run_history_def workflow_example_defs ex_failing_wf_env_def ex_failed_history_def
      Let_def)

text \<open>
  C6, as stated: the history that is persisted for a completed call holds no result of a
  node, and the result field is the value of the one output node that produced a result.
  Neither holds. In the run in which the only output node produces the number 0, exactly
  one output node produced a result, and the result field is the empty list: a falsy
  output is dropped. In the run during which the engine throws, the call completes with
  the object \<open>{error: {name, message, history}}\<close>, whose history holds the result of the
  first node, and \<open>convertToSavePart\<close> saves the part with that history as it is.
\<close>

theorem C6_falsy_output_and_failed_run_counterexample:
  "run_history ex_zero_wf_env ex_flow ex_zero_events = ex_zero_history \<and>
   produced_values ex_zero_wf_env ex_zero_history = [JNum 0] \<and>
   claimed_result ex_zero_wf_env ex_zero_history = JNum 0 \<and>
   workflow_execute ex_zero_wf_env ''w1'' ''Demo'' JUndefined ''call-1''
     = Inr (WorkflowStreamingResult ex_zero_result) \<and>
   tr_result ex_zero_result = JArr [] \<and>
   workflow_execute ex_failing_wf_env ''w1'' ''Demo'' JUndefined ''call-1''
     = Inr (WorkflowFailure ''ERROR'' ''engine stopped'' ex_failed_history) \<and>
   convertToSavePart
       (ToolUIPart (ex_workflow_part (WorkflowFailure ''ERROR'' ''engine stopped'' ex_failed_history)))
     = Inr (ToolUIPart (ex_workflow_part
         (WorkflowFailure ''ERROR'' ''engine stopped'' ex_failed_history))) \<and>
   map h_result ex_failed_history
     = [Some \<lparr>nr_input = JObj [], nr_output = JObj [(''q'', JStr ''x'')]\<rparr>]"
proof -
  have p: "produced_values ex_zero_wf_env ex_zero_history = [JNum 0]"
    by (simp add: produced_values_def ex_zero_history_def ex_zero_wf_env_def workflow_example_defs
        List.map_filter_simps)
  then have c: "claimed_result ex_zero_wf_env ex_zero_history = JNum 0"
    by (simp add: claimed_result_def)
  have s: "selectStructureById ex_zero_wf_env ''w1'' = Inr (Some ex_flow)"
          "engine_run ex_zero_wf_env ex_flow q = (ex_zero_events, Inr \<lparr>r_isOk = True, r_error = None\<rparr>)"
          "selectStructureById ex_failing_wf_env ''w1'' = Inr (Some ex_flow)"
          "engine_run ex_failing_wf_env ex_flow q = (take 3 ex_events, Inl (JsError [] ''engine stopped''))"
    for q
    by (simp_all add: ex_zero_wf_env_def ex_failing_wf_env_def ex_wf_env_def)
  have d: "date_now ex_zero_wf_env n = int n" "wf_icon ex_flow = JUndefined"
          "errorToString ex_failing_wf_env (Some (JsError a b)) = b" for n a b
    by (simp_all add: ex_zero_wf_env_def ex_failing_wf_env_def workflow_example_defs)
  have t: "truthy_values ex_zero_wf_env ex_zero_history = []"
    by (simp add: truthy_values_def p)
  have z: "workflow_execute ex_zero_wf_env ''w1'' ''Demo'' JUndefined ''call-1''
     = Inr (WorkflowStreamingResult ex_zero_result)"
    by (simp add: workflow_execute_cases s Let_def finish_run_def outputNodeResults_eq
        ex_zero_run_history t d)
       (simp add: ex_zero_history_def ex_zero_result_def strip_result_def)
  have f: "workflow_execute ex_failing_wf_env ''w1'' ''Demo'' JUndefined ''call-1''
     = Inr (WorkflowFailure ''ERROR'' ''engine stopped'' ex_failed_history)"
    by (simp add: workflow_execute_cases s Let_def ex_failed_run_history d or_default_def)
  have v: "convertToSavePart
       (ToolUIPart (ex_workflow_part (WorkflowFailure ''ERROR'' ''engine stopped'' ex_failed_history)))
     = Inr (ToolUIPart (ex_workflow_part
         (WorkflowFailure ''ERROR'' ''engine stopped'' ex_failed_history)))"
    by (simp add: convertToSavePart_workflow_failure [of _ "''ERROR''" "''engine stopped''" ex_failed_history]
        ex_workflow_part_def)
  have h: "map h_result ex_failed_history
     = [Some \<lparr>nr_input = JObj [], nr_output = JObj [(''q'', JStr ''x'')]\<rparr>]"
    by (simp add: ex_failed_history_def)
  from ex_zero_run_history p c z f v h show ?thesis
    by (simp add: ex_zero_result_def)
qed

text \<open>
  C6, amended: for every workflow tool call whose engine run resolves (with \<open>isOk\<close> or
  without), \<open>execute\<close> returns the tagged result; its history is the history the subscriber
  built with the result of every node removed, and its result field is the one output
  value that is not falsy if exactly one entry of kind \<open>NodeKind.Output\<close> has such an
  output, and otherwise the list of these values in the order of the history.
  \<open>convertToSavePart\<close>, through which every part is persisted, removes the results of the
  nodes from the history of every tagged result, also of one that still holds them (the
  result as it is written to the stream while the workflow runs), and keeps the entries
  and the result field.
\<close>

theorem C6_resolved_workflow_result:
  assumes "selectStructureById env wid = Inr (Some flow)"
      and "engine_run env flow (nullish_or query (JObj [])) = (events, Inr res)"
  shows "(\<exists>r. workflow_execute env wid name query tcid = Inr (WorkflowStreamingResult r) \<and>
            tr_history r = map (\<lambda>h. h\<lparr>h_result := None\<rparr>) (run_history env flow events) \<and>
            with_payload (tr_history r) = [] \<and>
            tr_result r = (case truthy_values env (run_history env flow events) of
                             [v] \<Rightarrow> v | vs \<Rightarrow> JArr vs)) \<and>
         (\<forall>t r0. take 6 (p_state t) = ''output'' \<longrightarrow> p_output t = WorkflowStreamingResult r0 \<longrightarrow>
            (\<exists>t' r'. convertToSavePart (ToolUIPart t) = Inr (ToolUIPart t') \<and>
                     p_output t' = WorkflowStreamingResult r' \<and>
                     tr_history r' = map (\<lambda>h. h\<lparr>h_result := None\<rparr>) (tr_history r0) \<and>
                     with_payload (tr_history r') = [] \<and>
                     tr_result r' = tr_result r0))"
proof -
  let ?history = "run_history env flow events"
  let ?r = "finish_run env
      \<lparr>tr_toolCallId = tcid, tr_workflowName = name, tr_workflowIcon = wf_icon flow,
       tr_startedAt = date_now env 0, tr_endedAt = date_now env 1, tr_history = [],
       tr_result = JUndefined, tr_status = Running, tr_error = None\<rparr>
      ?history res"
  from assms have e: "workflow_execute env wid name query tcid = Inr (WorkflowStreamingResult ?r)"
    by (simp add: workflow_execute_cases Let_def)
  have h: "tr_history ?r = map (\<lambda>h. h\<lparr>h_result := None\<rparr>) ?history"
    by (simp add: finish_run_def strip_result_def)
  have p: "with_payload (tr_history ?r) = []"
    unfolding h by (rule with_payload_stripped)
  have v: "tr_result ?r = (case truthy_values env ?history of [v] \<Rightarrow> v | vs \<Rightarrow> JArr vs)"
    using length_one_case [of "truthy_values env ?history"]
    by (simp add: finish_run_def Let_def outputNodeResults_eq)
  have a: "\<exists>r. workflow_execute env wid name query tcid = Inr (WorkflowStreamingResult r) \<and>
            tr_history r = map (\<lambda>h. h\<lparr>h_result := None\<rparr>) ?history \<and>
            with_payload (tr_history r) = [] \<and>
            tr_result r = (case truthy_values env ?history of [v] \<Rightarrow> v | vs \<Rightarrow> JArr vs)"
    using e h p v by blast
  have b: "\<exists>t' r'. convertToSavePart (ToolUIPart t) = Inr (ToolUIPart t') \<and>
                 p_output t' = WorkflowStreamingResult r' \<and>
                 tr_history r' = map (\<lambda>h. h\<lparr>h_result := None\<rparr>) (tr_history r0) \<and>
                 with_payload (tr_history r') = [] \<and>
                 tr_result r' = tr_result r0"
    if "take 6 (p_state t) = ''output''" "p_output t = WorkflowStreamingResult r0" for t r0
    using convertToSavePart_workflow_result [OF that] by (simp add: with_payload_stripped)
  from a b show ?thesis
    by blast
qed

theorem C6_resolved_workflow_result_witness:
  "selectStructureById ex_wf_env ''w1'' = Inr (Some ex_flow) \<and>
   engine_run ex_wf_env ex_flow (nullish_or JUndefined (JObj []))
     = (ex_events, Inr \<lparr>r_isOk = True, r_error = None\<rparr>) \<and>
   run_history ex_wf_env ex_flow ex_events = ex_full_history \<and>
   with_payload ex_full_history = ex_full_history \<and>
   workflow_execute ex_wf_env ''w1'' ''Demo'' JUndefined ''call-1''
     = Inr (WorkflowStreamingResult ex_result) \<and>
   with_payload (tr_history ex_result) = [] \<and>
   truthy_values ex_wf_env ex_full_history = [JObj [(''answer'', JNum 42)]] \<and>
   tr_result ex_result = JObj [(''answer'', JNum 42)] \<and>
   convertToSavePart
       (ToolUIPart (ex_workflow_part (WorkflowStreamingResult (ex_result\<lparr>tr_history := ex_full_history\<rparr>))))
     = Inr (ToolUIPart (ex_workflow_part (WorkflowStreamingResult ex_result)))"
proof -
  let ?snapshot = "ex_workflow_part (WorkflowStreamingResult (ex_result\<lparr>tr_history := ex_full_history\<rparr>))"
  have s1: "selectStructureById ex_wf_env ''w1'' = Inr (Some ex_flow)"
    by (simp add: ex_wf_env_def)
  have s2: "engine_run ex_wf_env ex_flow (nullish_or JUndefined (JObj []))
     = (ex_events, Inr \<lparr>r_isOk = True, r_error = None\<rparr>)"
    by (simp add: ex_wf_env_def)
  have w: "with_payload ex_full_history = ex_full_history"
    by (simp add: with_payload_def ex_full_history_def)
  have o: "truthy_values ex_wf_env ex_full_history = [JObj [(''answer'', JNum 42)]]"
    by (simp add: truthy_values_def produced_values_def ex_full_history_def workflow_example_defs
        List.map_filter_simps)
  have d: "date_now ex_wf_env n = int n" "wf_icon ex_flow = JUndefined" for n
    by (simp_all add: workflow_example_defs)
  have e: "workflow_execute ex_wf_env ''w1'' ''Demo'' JUndefined ''call-1''
     = Inr (WorkflowStreamingResult ex_result)"
    by (simp add: workflow_execute_cases s1 s2 Let_def finish_run_def outputNodeResults_eq
        ex_run_history o d)
       (simp add: ex_full_history_def ex_result_def ex_history_def strip_result_def)
  have c: "convertToSavePart (ToolUIPart ?snapshot)
     = Inr (ToolUIPart (ex_workflow_part (WorkflowStreamingResult ex_result)))"
    by (simp add: convertToSavePart_workflow_result
          [of _ "ex_result\<lparr>tr_history := ex_full_history\<rparr>"] ex_workflow_part_def)
       (simp add: ex_result_def ex_full_history_def ex_history_def)
  note T = C6_resolved_workflow_result [OF s1 s2, of "''Demo''" "''call-1''"]
  from T e have p: "with_payload (tr_history ex_result) = []"
    by auto
  from T e have "tr_result ex_result
      = (case truthy_values ex_wf_env (run_history ex_wf_env ex_flow ex_events) of
           [v] \<Rightarrow> v | vs \<Rightarrow> JArr vs)"
    by auto
  then have v: "tr_result ex_result = JObj [(''answer'', JNum 42)]"
    by (simp add: ex_run_history o)
  from s1 s2 ex_run_history w e p o v c show ?thesis
    by blast
qed

section \<open>Properties of the message sanitizer\<close>

lemmas san_defs = sanitizeUIMessagesForConversion_def sanitize_tool_or_unknown_def sanitize_text_def
  log_def get_prop_def trim_def is_ws_def

lemma tool_part_dropped:
  assumes "p_toolName t \<noteq> ''call''" and "p_toolName t \<noteq> ''result''"
  shows "sanitize_part env (ToolUIPart t) st = (None, log (Warn ''Unknown part type encountered:'') st)"
  using assms by (simp add: sanitize_tool_or_unknown_def)

lemma tool_call_passes:
  assumes "part_type p = JStr ''tool-call'' \<or> part_type p = JStr ''tool-result''"
  shows "sanitize_part env p st = (Some p, st)"
  using assms by (cases p) (auto simp: sanitize_tool_or_unknown_def)

lemma unknown_dropped:
  assumes "part_type p \<notin> known_types"
  shows "sanitize_part env p st = (None, log (Warn ''Unknown part type encountered:'') st)"
  using assms by (cases p) (auto simp: sanitize_tool_or_unknown_def known_types_def)

lemma get_prop_update: "get_prop (AList.update k v ob) k' = (if k' = k then v else get_prop ob k')"
  by (simp add: get_prop_def update_conv')

lemma get_prop_delete: "get_prop (AList.delete k ob) k' = (if k' = k then JUndefined else get_prop ob k')"
  by (simp add: get_prop_def delete_conv')

lemma map_of_filter_keep:
  "map_of ob k = Some v \<Longrightarrow> P (k, v) \<Longrightarrow> map_of (filter P ob) k = Some v"
  by (induction ob) (auto split: if_splits)

lemma type_file_cleanup:
  "get_prop ob ''type'' = JStr s \<Longrightarrow> get_prop (file_cleanup ob) ''type'' = JStr s"
  by (auto simp: get_prop_def file_cleanup_def map_of_filter_keep split: option.splits)

lemma type_file_payload:
  "file_payload env ob st = (Some ob1, st1) \<Longrightarrow> get_prop ob1 ''type'' = get_prop ob ''type''"
  by (auto simp: file_payload_def Let_def get_prop_update split: if_splits prod.splits option.splits)

lemma type_file_rename_mimeType:
  "get_prop (fst (file_rename_mimeType ob st)) ''type'' = get_prop ob ''type''"
  by (simp add: file_rename_mimeType_def get_prop_update get_prop_delete)

lemma type_file_infer_mediaType:
  "get_prop (fst (file_infer_mediaType ob st)) ''type'' = get_prop ob ''type''"
  by (simp add: file_infer_mediaType_def Let_def get_prop_update split: jsval.splits)

lemma type_file_validate_mediaType:
  "get_prop (fst (file_validate_mediaType ob st)) ''type'' = get_prop ob ''type''"
  by (simp add: file_validate_mediaType_def get_prop_update split: jsval.splits)

lemma type_file_ensure_name:
  "get_prop (fst (file_ensure_name env ob st)) ''type'' = get_prop ob ''type''"
  by (simp add: file_ensure_name_def Let_def get_prop_update)

lemma type_sanitize_file:
  assumes "sanitize_file env ob st = (Some ob', st')" and "get_prop ob ''type'' = JStr s"
  shows "get_prop ob' ''type'' = JStr s"
proof -
  from assms(1) obtain ob1 st1 where p: "file_payload env ob st = (Some ob1, st1)"
    by (auto simp: sanitize_file_def split: prod.splits option.splits)
  define r2 where "r2 = file_rename_mimeType ob1 st1"
  define r3 where "r3 = file_infer_mediaType (fst r2) (snd r2)"
  define r4 where "r4 = file_validate_mediaType (fst r3) (snd r3)"
  define r5 where "r5 = file_ensure_name env (fst r4) (snd r4)"
  from assms(1) p have "ob' = file_cleanup (fst r5)"
    by (simp add: sanitize_file_def Let_def r2_def r3_def r4_def r5_def case_prod_unfold)
  moreover have "get_prop (fst r5) ''type'' = JStr s"
    using type_file_payload [OF p] assms(2)
    by (simp add: r5_def r4_def r3_def r2_def type_file_ensure_name type_file_validate_mediaType
        type_file_infer_mediaType type_file_rename_mimeType)
  ultimately show ?thesis
    by (simp add: type_file_cleanup)
qed

lemma type_sanitize_text: "sanitize_text ob st = (Some ob', st') \<Longrightarrow> ob' = ob"
  by (auto simp: sanitize_text_def split: jsval.splits if_splits)

lemma type_sanitize_image:
  "sanitize_image ob st = (Some ob', st') \<Longrightarrow> get_prop ob' ''type'' = get_prop ob ''type''"
  by (auto simp: sanitize_image_def Let_def get_prop_delete split: if_splits)

lemma sanitize_part_known:
  assumes "sanitize_part env p st = (Some q, st')"
  shows "part_type q = part_type p \<and> part_type p \<in> known_types"
proof (cases p)
  case (ToolUIPart t)
  with assms show ?thesis
    by (auto simp: sanitize_tool_or_unknown_def known_types_def split: if_splits)
next
  case (ObjectPart ob)
  consider (is_text) "get_prop ob ''type'' = JStr ''text''"
    | (is_image) "get_prop ob ''type'' = JStr ''image''"
    | (is_file) "get_prop ob ''type'' = JStr ''file''"
    | (other) "get_prop ob ''type'' \<noteq> JStr ''text''" "get_prop ob ''type'' \<noteq> JStr ''image''"
        "get_prop ob ''type'' \<noteq> JStr ''file''"
    by blast
  then show ?thesis
  proof cases
    case is_text
    with assms ObjectPart show ?thesis
      by (auto simp: known_types_def split: prod.splits dest: type_sanitize_text)
  next
    case is_image
    with assms ObjectPart show ?thesis
      by (auto simp: known_types_def split: prod.splits dest: type_sanitize_image)
  next
    case is_file
    with assms ObjectPart show ?thesis
      by (auto simp: known_types_def split: prod.splits dest: type_sanitize_file)
  next
    case other
    with assms ObjectPart show ?thesis
      by (auto simp: sanitize_tool_or_unknown_def known_types_def split: if_splits)
  qed
qed

lemma sanitize_parts_known:
  "sanitize_parts env ps st = (qs, st') \<Longrightarrow> \<forall>q\<in>set qs. part_type q \<in> known_types"
proof (induction ps arbitrary: st qs st')
  case Nil
  then show ?case by simp
next
  case (Cons p ps)
  obtain r st1 where r: "sanitize_part env p st = (r, st1)" by (cases "sanitize_part env p st")
  obtain vs st2 where v: "sanitize_parts env ps st1 = (vs, st2)" by (cases "sanitize_parts env ps st1")
  from Cons.IH [OF v] have iv: "\<forall>q\<in>set vs. part_type q \<in> known_types" .
  show ?case
  proof (cases r)
    case None
    with Cons.prems r v iv show ?thesis by simp
  next
    case (Some q)
    with r sanitize_part_known [of env p st q st1] have "part_type q \<in> known_types"
      by simp
    with Cons.prems r v iv Some show ?thesis by auto
  qed
qed

lemma sanitize_messages_known:
  "sanitize_messages env ms st = (out, st') \<Longrightarrow>
     list_all2 (\<lambda>m m'. case m_parts m of
                  None \<Rightarrow> m' = m
                | Some ps \<Rightarrow> (\<exists>qs. m' = m\<lparr>m_parts := Some qs\<rparr> \<and>
                                  (\<forall>q\<in>set qs. part_type q \<in> known_types))) ms out"
proof (induction ms arbitrary: st out st')
  case Nil
  then show ?case by simp
next
  case (Cons m ms)
  show ?case
  proof (cases "m_parts m")
    case None
    obtain o2 s2 where o: "sanitize_messages env ms st = (o2, s2)"
      by (cases "sanitize_messages env ms st")
    from Cons.prems None o have out: "out = m # o2" by simp
    from Cons.IH [OF o] None show ?thesis
      by (simp add: out)
  next
    case (Some ps)
    obtain vs s1 where v: "sanitize_parts env ps st = (vs, s1)"
      by (cases "sanitize_parts env ps st")
    obtain o2 s2 where o: "sanitize_messages env ms s1 = (o2, s2)"
      by (cases "sanitize_messages env ms s1")
    from Cons.prems Some v o have out: "out = m\<lparr>m_parts := Some vs\<rparr> # o2" by simp
    from Cons.IH [OF o] Some sanitize_parts_known [OF v] show ?thesis
      by (auto simp: out)
  qed
qed

text \<open>The repairs of the file branch on small inputs.\<close>

lemmas file_defs = sanitize_file_def file_payload_def file_rename_mimeType_def
  file_infer_mediaType_def file_validate_mediaType_def file_ensure_name_def file_cleanup_def
  mediaTypeMap_get_def mediaTypeMap_def js_get_def object_prototype_names_def toLowerCase_def
  lower_char_def upper_letters_def lower_letters_def Let_def

lemma sanitize_legacy_mimeType:
  "fst (sanitize_part ex_san_env
          (ObjectPart [(''type'', JStr ''file''), (''data'', JStr ''aGk=''),
                       (''name'', JStr ''notes.txt''), (''mimeType'', JStr ''text/plain'')])
          \<lparr>logs = [], ticks = 0\<rparr>)
     = Some (ObjectPart [(''type'', JStr ''file''), (''data'', JStr ''aGk=''),
                         (''name'', JStr ''notes.txt''), (''mediaType'', JStr ''text/plain'')])"
  by (simp add: san_defs file_defs)

lemma sanitize_infers_csv:
  "fst (sanitize_part ex_san_env
          (ObjectPart [(''type'', JStr ''file''), (''data'', JStr ''a,b''), (''name'', JStr ''report.csv'')])
          \<lparr>logs = [], ticks = 0\<rparr>)
     = Some (ObjectPart [(''type'', JStr ''file''), (''data'', JStr ''a,b''),
                         (''name'', JStr ''report.csv''), (''mediaType'', JStr ''text/csv'')])"
  by (simp add: san_defs file_defs)

lemma sanitize_names_file:
  "fst (sanitize_part ex_san_env
          (ObjectPart [(''type'', JStr ''file''), (''data'', JStr ''a,b''), (''mediaType'', JStr ''text/csv'')])
          \<lparr>logs = [], ticks = 0\<rparr>)
     = Some (ObjectPart [(''type'', JStr ''file''), (''data'', JStr ''a,b''),
                         (''mediaType'', JStr ''text/csv''), (''name'', JStr ''file_1700000000000.csv'')])"
  by (simp add: san_defs file_defs file_default_name_def ex_san_env_def or_default_def digit_chars_def)

lemma sanitize_file_without_payload:
  "sanitize_part ex_san_env
          (ObjectPart [(''type'', JStr ''file''), (''url'', JStr ''https://example.org/a.bin'')])
          \<lparr>logs = [], ticks = 0\<rparr>
     = (None, \<lparr>logs = [Info ''File part has URL but no data - attempting to fetch content:'',
                         Error ''Error fetching file content from'',
                         Warn ''Failed to fetch content for file:''], ticks = 0\<rparr>)"
  by (simp add: san_defs file_defs fetchFileContentForAI_def ex_san_env_def)

text \<open>
  C8: the sanitizer passes every tool part through unmodified, and drops every part of an
  unknown type with a diagnostic. The second half holds (\<open>unknown_dropped\<close>,
  \<open>sanitize_messages_known\<close>). The first half holds only for parts of the types
  \<open>tool-call\<close> and \<open>tool-result\<close> (\<open>tool_call_passes\<close>): any other tool part, whose type
  is \<open>tool-NAME\<close>, is dropped as unknown (\<open>tool_part_dropped\<close>). In the message of the
  example the part of the finished call of \<open>search\<close>, a tool part by \<open>isToolUIPart\<close>, does
  not reach the output.
\<close>

theorem C8_tool_part_is_dropped:
  "isToolUIPart (ToolUIPart ex_done_part) \<and>
   sanitizeUIMessagesForConversion ex_san_env [ex_assistant_message]
     = ([ex_assistant_message\<lparr>m_parts := Some [ex_text_part]\<rparr>],
        [Warn ''Unknown part type encountered:''])"
  by (simp add: san_defs isToolUIPart_def ex_assistant_message_def ex_text_part_def ex_done_part_def)

end
